theory Spec2Isabelle
  imports Main
begin

section \<open>JavaScript values as the analyzer sees them\<close>

text \<open>
  The analyzer works on whatever \<^verbatim>\<open>JSON.parse\<close> returns (the source types it
  \<^verbatim>\<open>any\<close>), so the model is a datatype of JSON values with \<^verbatim>\<open>undefined\<close> added
  for the result of reading an absent property. An object is the list of its own
  properties in enumeration order (keys are distinct in a parsed document).
  Numbers are modelled by integers: the analyzer only tests a number for zero,
  compares one with 5 and prints it. Strings are lists of 8-bit characters; every
  text the analyzer searches for is ASCII.
\<close>

datatype jsval =
    JUndefined
  | JNull
  | JBool bool
  | JNum int
  | JStr string
  | JArr "jsval list"
  | JObj "(string \<times> jsval) list"

text \<open>
  A thrown exception. Both kinds are instances of \<^verbatim>\<open>Error\<close>; the string is the
  engine's message (\<^verbatim>\<open>error.message\<close>). The wording of the messages below follows V8;
  no theorem depends on it.
\<close>

datatype js_error = SyntaxError string | TypeError string

fun error_message :: "js_error \<Rightarrow> string" where
  "error_message (SyntaxError m) = m"
| "error_message (TypeError m) = m"

definition bindE :: "js_error + 'a \<Rightarrow> ('a \<Rightarrow> js_error + 'b) \<Rightarrow> js_error + 'b" where
  "bindE m f = (case m of Inl e \<Rightarrow> Inl e | Inr x \<Rightarrow> f x)"

subsection \<open>Truthiness, logical operators, type tests\<close>

fun truthy :: "jsval \<Rightarrow> bool" where
  "truthy JUndefined = False"
| "truthy JNull = False"
| "truthy (JBool b) = b"
| "truthy (JNum n) = (n \<noteq> 0)"
| "truthy (JStr s) = (s \<noteq> [])"
| "truthy (JArr xs) = True"
| "truthy (JObj kvs) = True"

definition or_js :: "jsval \<Rightarrow> jsval \<Rightarrow> jsval" where
  \<comment> \<open>\<^verbatim>\<open>a || b\<close>\<close>
  "or_js a b = (if truthy a then a else b)"

definition and_js :: "jsval \<Rightarrow> jsval \<Rightarrow> jsval" where
  \<comment> \<open>\<^verbatim>\<open>a && b\<close>\<close>
  "and_js a b = (if truthy a then b else a)"

fun nullish :: "jsval \<Rightarrow> bool" where
  "nullish JUndefined = True"
| "nullish JNull = True"
| "nullish _ = False"

fun isArray :: "jsval \<Rightarrow> bool" where
  \<comment> \<open>\<^verbatim>\<open>Array.isArray(v)\<close>\<close>
  "isArray (JArr xs) = True"
| "isArray _ = False"

fun typeof_object :: "jsval \<Rightarrow> bool" where
  \<comment> \<open>\<^verbatim>\<open>typeof v === "object"\<close>: objects, arrays and \<^verbatim>\<open>null\<close>\<close>
  "typeof_object (JObj kvs) = True"
| "typeof_object (JArr xs) = True"
| "typeof_object JNull = True"
| "typeof_object _ = False"

subsection \<open>Printing\<close>

definition digit_char :: "nat \<Rightarrow> char" where
  "digit_char d = ''0123456789'' ! d"

fun decimal :: "nat \<Rightarrow> string" where
  \<comment> \<open>a natural number in decimal, as JavaScript prints it\<close>
  "decimal n = (if 10 \<le> n then decimal (n div 10) @ [digit_char (n mod 10)] else [digit_char n])"

declare decimal.simps [simp del]

definition number_text :: "int \<Rightarrow> string" where
  "number_text i = (if 0 \<le> i then decimal (nat i) else CHR ''-'' # decimal (nat (- i)))"

fun join_comma :: "string list \<Rightarrow> string" where
  "join_comma [] = []"
| "join_comma [s] = s"
| "join_comma (s # t # ss) = s @ '','' @ join_comma (t # ss)"

fun sequenceE :: "(js_error + 'a) list \<Rightarrow> js_error + 'a list" where
  "sequenceE [] = Inr []"
| "sequenceE (m # ms) =
     (case m of Inl e \<Rightarrow> Inl e
      | Inr x \<Rightarrow> (case sequenceE ms of Inl e \<Rightarrow> Inl e | Inr xs \<Rightarrow> Inr (x # xs)))"

text \<open>
  \<^verbatim>\<open>ToString\<close>, as a template literal \<^verbatim>\<open>`${v}`\<close> applies it. An array prints its
  elements joined by commas, with \<^verbatim>\<open>null\<close> elements empty. A plain object prints as
  \<^verbatim>\<open>[object Object]\<close>, unless an own \<^verbatim>\<open>toString\<close> member (never callable in parsed
  JSON) hides the inherited method: then the conversion throws.
\<close>

fun toString :: "jsval \<Rightarrow> js_error + string" where
  "toString JUndefined = Inr ''undefined''"
| "toString JNull = Inr ''null''"
| "toString (JBool b) = Inr (if b then ''true'' else ''false'')"
| "toString (JNum n) = Inr (number_text n)"
| "toString (JStr s) = Inr s"
| "toString (JArr xs) =
     (case sequenceE (map (\<lambda>x. if nullish x then Inr [] else toString x) xs) of
        Inl e \<Rightarrow> Inl e
      | Inr ss \<Rightarrow> Inr (join_comma ss))"
| "toString (JObj kvs) =
     (if ''toString'' \<in> fst ` set kvs
      then Inl (TypeError ''Cannot convert object to primitive value'')
      else Inr ''[object Object]'')"

subsection \<open>Reading properties\<close>

text \<open>
  \<open>read_prop v k\<close> is \<^verbatim>\<open>v.k\<close> for a value \<open>v\<close> that is neither \<^verbatim>\<open>null\<close> nor
  \<^verbatim>\<open>undefined\<close>, and \<^verbatim>\<open>v?.k\<close> for any \<open>v\<close>. It is used with the property names
  of the source only; none of them is inherited from a prototype except \<^verbatim>\<open>length\<close>
  of strings and arrays. \<open>get v k\<close> is \<^verbatim>\<open>v.k\<close> for any \<open>v\<close>: it throws on
  \<^verbatim>\<open>null\<close> and \<^verbatim>\<open>undefined\<close>.
\<close>

fun read_prop :: "jsval \<Rightarrow> string \<Rightarrow> jsval" where
  "read_prop (JObj kvs) k = (case map_of kvs k of Some v \<Rightarrow> v | None \<Rightarrow> JUndefined)"
| "read_prop (JArr xs) k = (if k = ''length'' then JNum (int (length xs)) else JUndefined)"
| "read_prop (JStr s) k = (if k = ''length'' then JNum (int (length s)) else JUndefined)"
| "read_prop _ k = JUndefined"

definition apostrophe :: string where
  "apostrophe = [CHR 0x27]"

definition cannot_read :: "jsval \<Rightarrow> string \<Rightarrow> js_error" where
  "cannot_read v k =
     TypeError (''Cannot read properties of '' @ (if v = JNull then ''null'' else ''undefined'')
                @ '' (reading '' @ apostrophe @ k @ apostrophe @ '')'')"

definition get :: "jsval \<Rightarrow> string \<Rightarrow> js_error + jsval" where
  "get v k = (if nullish v then Inl (cannot_read v k) else Inr (read_prop v k))"

text \<open>
  \<^verbatim>\<open>Object.entries(v)\<close> for a truthy \<open>v\<close> (every call of \<^verbatim>\<open>Object.keys\<close>,
  \<^verbatim>\<open>Object.values\<close> and \<^verbatim>\<open>Object.entries\<close> in the source is guarded by a truthiness
  test): the members of an object, the indexed elements of an array, the indexed
  characters of a string, nothing for a number or a boolean.
\<close>

fun entries :: "jsval \<Rightarrow> (string \<times> jsval) list" where
  "entries (JObj kvs) = kvs"
| "entries (JArr xs) = zip (map decimal [0..<length xs]) xs"
| "entries (JStr s) = zip (map decimal [0..<length s]) (map (\<lambda>c. JStr [c]) s)"
| "entries _ = []"

definition values_js :: "jsval \<Rightarrow> jsval list" where
  \<comment> \<open>\<^verbatim>\<open>Object.values(v)\<close>\<close>
  "values_js v = map snd (entries v)"

subsection \<open>\<^verbatim>\<open>includes\<close>\<close>

fun starts_with :: "string \<Rightarrow> string \<Rightarrow> bool" where
  "starts_with s [] = True"
| "starts_with [] (p # ps) = False"
| "starts_with (c # cs) (p # ps) = (c = p \<and> starts_with cs ps)"

fun str_includes :: "string \<Rightarrow> string \<Rightarrow> bool" where
  \<comment> \<open>\<^verbatim>\<open>String.prototype.includes\<close>: \<open>p\<close> occurs in \<open>s\<close> as a substring\<close>
  "str_includes [] p = (p = [])"
| "str_includes (c # cs) p = (starts_with (c # cs) p \<or> str_includes cs p)"

text \<open>
  \<open>incl v p\<close> is \<^verbatim>\<open>v.includes(p)\<close> for a value on which the call does not throw: a
  string (substring test) or an array (membership of the string \<open>p\<close>).
  \<open>includes_js\<close> is the call on any value: \<^verbatim>\<open>null\<close> and \<^verbatim>\<open>undefined\<close> have no
  properties, and on every other value \<^verbatim>\<open>includes\<close> is not a function.
\<close>

fun incl :: "jsval \<Rightarrow> string \<Rightarrow> bool" where
  "incl (JStr s) p = str_includes s p"
| "incl (JArr xs) p = (JStr p \<in> set xs)"
| "incl _ p = False"

definition not_a_function :: "string \<Rightarrow> js_error" where
  "not_a_function what = TypeError (what @ '' is not a function'')"

fun includes_js :: "string \<Rightarrow> jsval \<Rightarrow> string \<Rightarrow> js_error + bool" where
  \<comment> \<open>the first argument is the source text of the receiver, for the message\<close>
  "includes_js what (JStr s) p = Inr (incl (JStr s) p)"
| "includes_js what (JArr xs) p = Inr (incl (JArr xs) p)"
| "includes_js what JUndefined p = Inl (cannot_read JUndefined ''includes'')"
| "includes_js what JNull p = Inl (cannot_read JNull ''includes'')"
| "includes_js what v p = Inl (not_a_function (what @ ''.includes''))"

subsection \<open>Regular expressions\<close>

text \<open>
  The sensitive-data patterns use literals, \<^verbatim>\<open>.\<close>, \<^verbatim>\<open>\d\<close>, \<^verbatim>\<open>\s\<close>, \<^verbatim>\<open>\b\<close>,
  character classes, \<^verbatim>\<open>?\<close>, alternation and bounded repetition. A class is written
  as the alternation of its members and \<^verbatim>\<open>\d{4}\<close> as four \<^verbatim>\<open>\d\<close> in sequence.
\<close>

datatype regex =
    Lit char
  | Dot
  | Digit
  | Space
  | WordBoundary
  | Eps
  | Seq regex regex
  | Alt regex regex
  | Opt regex

definition is_digit :: "char \<Rightarrow> bool" where
  "is_digit c = (c \<in> set ''0123456789'')"

definition is_upper :: "char \<Rightarrow> bool" where
  "is_upper c = (c \<in> set ''ABCDEFGHIJKLMNOPQRSTUVWXYZ'')"

definition is_lower :: "char \<Rightarrow> bool" where
  "is_lower c = (c \<in> set ''abcdefghijklmnopqrstuvwxyz'')"

definition is_word_char :: "char \<Rightarrow> bool" where
  \<comment> \<open>\<^verbatim>\<open>\w\<close>\<close>
  "is_word_char c = (is_digit c \<or> is_upper c \<or> is_lower c \<or> c = CHR ''_'')"

definition is_line_terminator :: "char \<Rightarrow> bool" where
  "is_line_terminator c = (c = CHR 0x0A \<or> c = CHR 0x0D)"

definition is_space :: "char \<Rightarrow> bool" where
  \<comment> \<open>\<^verbatim>\<open>\s\<close>, and what \<^verbatim>\<open>trim\<close> removes\<close>
  "is_space c = (c \<in> {CHR 0x09, CHR 0x0A, CHR 0x0B, CHR 0x0C, CHR 0x0D, CHR 0x20, CHR 0xA0})"

definition to_lower :: "char \<Rightarrow> char" where
  "to_lower c = (case map_of (zip ''ABCDEFGHIJKLMNOPQRSTUVWXYZ'' ''abcdefghijklmnopqrstuvwxyz'') c of
                   Some l \<Rightarrow> l | None \<Rightarrow> c)"

definition char_eq :: "bool \<Rightarrow> char \<Rightarrow> char \<Rightarrow> bool" where
  \<comment> \<open>the flag is the \<^verbatim>\<open>i\<close> flag of the pattern\<close>
  "char_eq ignoreCase a b = (if ignoreCase then to_lower a = to_lower b else a = b)"

definition at_word_boundary :: "char option \<Rightarrow> string \<Rightarrow> bool" where
  "at_word_boundary prev rest =
     ((case prev of None \<Rightarrow> False | Some c \<Rightarrow> is_word_char c)
      \<noteq> (case rest of [] \<Rightarrow> False | c # cs \<Rightarrow> is_word_char c))"

text \<open>
  \<open>rmatch i r (prev, rest)\<close>: every way the pattern can match at the start of \<open>rest\<close>,
  each given as the character before and the text after the match. \<open>prev\<close> is the
  character before \<open>rest\<close> in the subject, for \<^verbatim>\<open>\b\<close>.
\<close>

fun rmatch :: "bool \<Rightarrow> regex \<Rightarrow> char option \<times> string \<Rightarrow> (char option \<times> string) list" where
  "rmatch i (Lit c) (prev, rest) =
     (case rest of [] \<Rightarrow> [] | x # xs \<Rightarrow> if char_eq i x c then [(Some x, xs)] else [])"
| "rmatch i Dot (prev, rest) =
     (case rest of [] \<Rightarrow> [] | x # xs \<Rightarrow> if is_line_terminator x then [] else [(Some x, xs)])"
| "rmatch i Digit (prev, rest) =
     (case rest of [] \<Rightarrow> [] | x # xs \<Rightarrow> if is_digit x then [(Some x, xs)] else [])"
| "rmatch i Space (prev, rest) =
     (case rest of [] \<Rightarrow> [] | x # xs \<Rightarrow> if is_space x then [(Some x, xs)] else [])"
| "rmatch i WordBoundary (prev, rest) = (if at_word_boundary prev rest then [(prev, rest)] else [])"
| "rmatch i Eps (prev, rest) = [(prev, rest)]"
| "rmatch i (Seq r1 r2) p = concat (map (rmatch i r2) (rmatch i r1 p))"
| "rmatch i (Alt r1 r2) p = rmatch i r1 p @ rmatch i r2 p"
| "rmatch i (Opt r) p = rmatch i r p @ [p]"

fun test_from :: "bool \<Rightarrow> regex \<Rightarrow> char option \<Rightarrow> string \<Rightarrow> bool" where
  "test_from i r prev [] = (rmatch i r (prev, []) \<noteq> [])"
| "test_from i r prev (c # cs) = (rmatch i r (prev, c # cs) \<noteq> [] \<or> test_from i r (Some c) cs)"

record pattern =
  source :: regex
  ignoreCase :: bool

definition test :: "pattern \<Rightarrow> string \<Rightarrow> bool" where
  \<comment> \<open>\<^verbatim>\<open>pattern.test(s)\<close> for a pattern without the \<^verbatim>\<open>g\<close> flag: some match exists\<close>
  "test p s = test_from (ignoreCase p) (source p) None s"

fun lit :: "string \<Rightarrow> regex" where
  "lit [] = Eps"
| "lit [c] = Lit c"
| "lit (c # cs) = Seq (Lit c) (lit cs)"

fun seqs :: "regex list \<Rightarrow> regex" where
  "seqs [] = Eps"
| "seqs [r] = r"
| "seqs (r # rs) = Seq r (seqs rs)"

subsection \<open>Arrays and numeric comparison\<close>

fun elements :: "jsval \<Rightarrow> jsval list" where
  "elements (JArr xs) = xs"
| "elements _ = []"

fun filterE :: "('a \<Rightarrow> js_error + bool) \<Rightarrow> 'a list \<Rightarrow> js_error + 'a list" where
  \<comment> \<open>\<^verbatim>\<open>Array.prototype.filter\<close> with a callback that may throw\<close>
  "filterE f [] = Inr []"
| "filterE f (x # xs) =
     bindE (f x) (\<lambda>keep. bindE (filterE f xs) (\<lambda>ys. Inr (if keep then x # ys else ys)))"

fun nat_of_digits :: "nat \<Rightarrow> string \<Rightarrow> nat" where
  "nat_of_digits acc [] = acc"
| "nat_of_digits acc (c # cs) = nat_of_digits (10 * acc + (of_char c - 48)) cs"

definition trim :: "string \<Rightarrow> string" where
  \<comment> \<open>\<^verbatim>\<open>String.prototype.trim\<close>\<close>
  "trim s = rev (dropWhile is_space (rev (dropWhile is_space s)))"

text \<open>
  \<^verbatim>\<open>ToNumber\<close> of a string, within the integer model of numbers: blank text is 0,
  an optionally signed run of decimal digits is its value, anything else is
  \<^verbatim>\<open>NaN\<close> (\<open>None\<close>). Numeric text in other notations (fraction, exponent, radix
  prefix, \<^verbatim>\<open>Infinity\<close>) is outside the model.
\<close>

definition string_to_number :: "string \<Rightarrow> int option" where
  "string_to_number s =
     (let t = trim s in
      if t = [] then Some 0
      else if hd t = CHR ''-'' \<and> tl t \<noteq> [] \<and> list_all is_digit (tl t)
        then Some (- int (nat_of_digits 0 (tl t)))
      else if hd t = CHR ''+'' \<and> tl t \<noteq> [] \<and> list_all is_digit (tl t)
        then Some (int (nat_of_digits 0 (tl t)))
      else if list_all is_digit t then Some (int (nat_of_digits 0 t))
      else None)"

fun toNumber :: "jsval \<Rightarrow> js_error + int option" where
  "toNumber JUndefined = Inr None"
| "toNumber JNull = Inr (Some 0)"
| "toNumber (JBool b) = Inr (Some (if b then 1 else 0))"
| "toNumber (JNum n) = Inr (Some n)"
| "toNumber (JStr s) = Inr (string_to_number s)"
| "toNumber v = bindE (toString v) (\<lambda>s. Inr (string_to_number s))"

definition greater_than :: "jsval \<Rightarrow> int \<Rightarrow> js_error + bool" where
  \<comment> \<open>\<^verbatim>\<open>v > n\<close> for a number literal \<open>n\<close>; a comparison with \<^verbatim>\<open>NaN\<close> is false\<close>
  "greater_than v n =
     bindE (toNumber v) (\<lambda>x. Inr (case x of None \<Rightarrow> False | Some m \<Rightarrow> m > n))"

section \<open>The analyzer's data\<close>

datatype severity = high | medium | low

text \<open>
  The \<^verbatim>\<open>description\<close> and \<^verbatim>\<open>remediation\<close> members of an issue are fixed texts, one
  pair for each issue type; they are left out of the record.
\<close>

record SecurityIssue =
  severity :: severity
  type :: string
  message :: string
  nodeId :: jsval
  nodeName :: jsval

record WorkflowInfo =
  name :: jsval
  nodes :: nat
  connections :: nat
  version :: jsval

record ValidationResult =
  isValid :: bool
  isN8nWorkflow :: bool
  errors :: "string list"
  warnings :: "string list"
  info :: "string list"
  securityIssues :: "SecurityIssue list"
  workflowInfo :: "WorkflowInfo option"

section \<open>\<^verbatim>\<open>checkNodeSecurity\<close>: the rule catalog\<close>

text \<open>
  Each block of \<^verbatim>\<open>checkNodeSecurity\<close> is a definition of its own, named after the
  issue type it pushes, and returns the issues the block pushes for the node. The
  blocks run after \<^verbatim>\<open>node.type.includes("stickyNote")\<close> has returned, so the node is
  not nullish and its type is a string or an array: \<open>read_prop\<close> and \<open>incl\<close> are
  the property reads and \<^verbatim>\<open>includes\<close> calls there.
\<close>

definition issue :: "severity \<Rightarrow> string \<Rightarrow> string \<Rightarrow> jsval \<Rightarrow> jsval \<Rightarrow> SecurityIssue" where
  "issue sev ty msg node nodeName_v =
     \<lparr>severity = sev, type = ty, message = msg,
      nodeId = read_prop node ''id'', nodeName = nodeName_v\<rparr>"

definition promptInjection :: "jsval \<Rightarrow> jsval \<Rightarrow> SecurityIssue list" where
  "promptInjection node nodeName_v =
     (let ty = read_prop node ''type''; parameters = read_prop node ''parameters'' in
      if incl ty ''lmChat'' \<or> incl ty ''openai'' \<or> incl ty ''gemini'' \<or> incl ty ''anthropic''
      then
        if truthy (or_js (read_prop parameters ''prompt'') (read_prop parameters ''message''))
        then
          (case or_js (or_js (read_prop parameters ''prompt'') (read_prop parameters ''message''))
                      (JStr [])
           of JStr promptContent \<Rightarrow>
                if str_includes promptContent ''{{''
                then [issue high ''LLM-01: Prompt Injection''
                        ''Dynamic prompt construction detected. User input directly inserted into prompts can lead to prompt injection attacks.''
                        node nodeName_v]
                else []
            | _ \<Rightarrow> [])
        else []
      else [])"

definition insecureOutputHandling :: "jsval \<Rightarrow> jsval \<Rightarrow> SecurityIssue list" where
  "insecureOutputHandling node nodeName_v =
     (let ty = read_prop node ''type'' in
      if incl ty ''lmChat'' \<or> incl ty ''openai'' \<or> incl ty ''gemini''
      then [issue medium ''LLM-02: Insecure Output Handling''
              ''AI model output used without validation. Unvalidated LLM outputs can contain malicious content or be used in downstream attacks.''
              node nodeName_v]
      else [])"

definition trainingDataPoisoning :: "jsval \<Rightarrow> jsval \<Rightarrow> SecurityIssue list" where
  "trainingDataPoisoning node nodeName_v =
     (let parameters = read_prop node ''parameters'' in
      if truthy (read_prop parameters ''trainingData'') \<or> truthy (read_prop parameters ''dataset'')
      then [issue high ''LLM-03: Training Data Poisoning''
              ''Training data source detected. Untrusted training data can compromise model integrity and introduce backdoors.''
              node nodeName_v]
      else [])"

definition modelDenialOfService :: "jsval \<Rightarrow> jsval \<Rightarrow> SecurityIssue list" where
  "modelDenialOfService node nodeName_v =
     (let ty = read_prop node ''type''; parameters = read_prop node ''parameters'' in
      if incl ty ''lmChat'' \<or> incl ty ''openai''
      then
        if \<not> truthy (read_prop parameters ''maxTokens'') \<and> \<not> truthy (read_prop parameters ''timeout'')
        then [issue medium ''LLM-04: Model Denial of Service''
                ''No resource limits configured for LLM requests. This can lead to resource exhaustion and service disruption.''
                node nodeName_v]
        else []
      else [])"

subsection \<open>Sensitive information disclosure\<close>

definition digits4 :: regex where
  "digits4 = seqs [Digit, Digit, Digit, Digit]"

definition dash_or_space :: regex where
  \<comment> \<open>\<^verbatim>\<open>[-\s]\<close>\<close>
  "dash_or_space = Alt (Lit CHR ''-'') Space"

definition underscore_or_dash :: regex where
  \<comment> \<open>\<^verbatim>\<open>[_-]\<close>\<close>
  "underscore_or_dash = Alt (Lit CHR ''_'') (Lit CHR ''-'')"

definition sensitivePatterns :: "(pattern \<times> string) list" where
  "sensitivePatterns =
     [(\<lparr>source = seqs [lit ''api'', Opt underscore_or_dash, lit ''key''], ignoreCase = True\<rparr>,
       ''API Key''),
      (\<lparr>source = lit ''password'', ignoreCase = True\<rparr>, ''Password''),
      (\<lparr>source = lit ''secret'', ignoreCase = True\<rparr>, ''Secret''),
      (\<lparr>source = lit ''token'', ignoreCase = True\<rparr>, ''Token''),
      (\<lparr>source = seqs [lit ''private'', Opt underscore_or_dash, lit ''key''], ignoreCase = True\<rparr>,
       ''Private Key''),
      (\<lparr>source = Alt (lit ''ssn'') (seqs [lit ''social'', Dot, lit ''security'']),
        ignoreCase = True\<rparr>, ''SSN''),
      (\<lparr>source = Alt (seqs [lit ''credit'', Dot, lit ''card'']) (lit ''ccn''),
        ignoreCase = True\<rparr>, ''Credit Card''),
      (\<lparr>source = seqs [WordBoundary, digits4, Opt dash_or_space, digits4, Opt dash_or_space,
                        digits4, Opt dash_or_space, digits4, WordBoundary],
        ignoreCase = False\<rparr>, ''Credit Card Number'')]"

definition sensitiveIssue :: "jsval \<Rightarrow> jsval \<Rightarrow> string \<Rightarrow> SecurityIssue" where
  "sensitiveIssue node nodeName_v kind =
     issue high ''LLM-06: Sensitive Information Disclosure''
       (''Potential '' @ kind @ '' detected in node parameters. Sensitive data in prompts can be logged or exposed.'')
       node nodeName_v"

text \<open>
  \<^verbatim>\<open>checkForSensitiveData\<close> is a closure over the node; its \<^verbatim>\<open>path\<close> argument is
  built but never read, and is left out. For an array \<^verbatim>\<open>Object.entries\<close> lists the
  elements in order.
\<close>

fun checkForSensitiveData :: "jsval \<Rightarrow> jsval \<Rightarrow> jsval \<Rightarrow> SecurityIssue list" where
  "checkForSensitiveData node nodeName_v (JStr obj) =
     map (\<lambda>(p, kind). sensitiveIssue node nodeName_v kind)
         (filter (\<lambda>(p, kind). test p obj) sensitivePatterns)"
| "checkForSensitiveData node nodeName_v (JObj kvs) =
     concat (map (\<lambda>(key, v). checkForSensitiveData node nodeName_v v) kvs)"
| "checkForSensitiveData node nodeName_v (JArr xs) =
     concat (map (checkForSensitiveData node nodeName_v) xs)"
| "checkForSensitiveData node nodeName_v _ = []"

definition sensitiveInformationDisclosure :: "jsval \<Rightarrow> jsval \<Rightarrow> SecurityIssue list" where
  "sensitiveInformationDisclosure node nodeName_v =
     (if truthy (read_prop node ''parameters'')
      then checkForSensitiveData node nodeName_v (read_prop node ''parameters'')
      else [])"

subsection \<open>The remaining blocks\<close>

definition insecurePluginDesign :: "jsval \<Rightarrow> jsval \<Rightarrow> SecurityIssue list" where
  "insecurePluginDesign node nodeName_v =
     (let ty = read_prop node ''type'' in
      if incl ty ''tool'' \<or> incl ty ''agent''
      then [issue medium ''LLM-07: Insecure Plugin Design''
              ''LLM tool/plugin usage detected. Insecure plugins can provide unauthorized access to sensitive functions.''
              node nodeName_v]
      else [])"

text \<open>
  \<^verbatim>\<open>toolCount\<close> is \<^verbatim>\<open>node.parameters?.tools?.length || 0\<close>: a number when \<^verbatim>\<open>tools\<close>
  is an array or a string, and whatever the own \<^verbatim>\<open>length\<close> member holds when
  \<^verbatim>\<open>tools\<close> is an object. The comparison and the message convert it, and the
  conversion of an object can throw.
\<close>

definition excessiveAgency :: "jsval \<Rightarrow> jsval \<Rightarrow> js_error + SecurityIssue list" where
  "excessiveAgency node nodeName_v =
     (let ty = read_prop node ''type''; tools = read_prop (read_prop node ''parameters'') ''tools'' in
      if incl ty ''agent'' \<or> (truthy tools \<and> isArray tools)
      then
        (let toolCount = or_js (read_prop tools ''length'') (JNum 0) in
         bindE (greater_than toolCount 5) (\<lambda>exceeds.
           if exceeds
           then bindE (toString toolCount) (\<lambda>shown.
                  Inr [issue high ''LLM-08: Excessive Agency''
                         (''Agent configured with '' @ shown @ '' tools. Excessive permissions can lead to unintended actions and security breaches.'')
                         node nodeName_v])
           else Inr []))
      else Inr [])"

definition overreliance :: "jsval \<Rightarrow> jsval \<Rightarrow> SecurityIssue list" where
  "overreliance node nodeName_v =
     (let ty = read_prop node ''type''; parameters = read_prop node ''parameters'' in
      if incl ty ''lmChat'' \<and> \<not> truthy (read_prop parameters ''fallback'')
         \<and> \<not> truthy (read_prop parameters ''validation'')
      then [issue medium ''LLM-09: Overreliance''
              ''No fallback or validation mechanisms detected. Overreliance on LLM outputs without verification can lead to critical failures.''
              node nodeName_v]
      else [])"

definition modelTheft :: "jsval \<Rightarrow> jsval \<Rightarrow> SecurityIssue list" where
  "modelTheft node nodeName_v =
     (let parameters = read_prop node ''parameters'' in
      if truthy (read_prop parameters ''modelPath'') \<or> truthy (read_prop parameters ''modelUrl'')
      then [issue medium ''LLM-10: Model Theft''
              ''Custom model path/URL detected. Exposed model endpoints can lead to intellectual property theft.''
              node nodeName_v]
      else [])"

definition insecurePlanning :: "jsval \<Rightarrow> jsval \<Rightarrow> SecurityIssue list" where
  "insecurePlanning node nodeName_v =
     (let ty = read_prop node ''type'' in
      if incl ty ''agent'' \<or> incl ty ''planning''
      then [issue medium ''Agentic AI: Insecure Planning''
              ''AI agent planning capabilities detected. Insecure planning can lead to unintended or malicious action sequences.''
              node nodeName_v]
      else [])"

definition memoryPoisoning :: "jsval \<Rightarrow> jsval \<Rightarrow> SecurityIssue list" where
  "memoryPoisoning node nodeName_v =
     (let ty = read_prop node ''type'' in
      if incl ty ''memory'' \<or> incl ty ''buffer''
      then [issue medium ''Agentic AI: Memory Poisoning''
              ''AI memory/buffer system detected. Compromised memory can persist malicious information across sessions.''
              node nodeName_v]
      else [])"

text \<open>
  The credential loop reads \<^verbatim>\<open>node.credentials[credType].id\<close> for every own key:
  an entry that is \<^verbatim>\<open>null\<close> throws.
\<close>

fun credentialEntries :: "jsval \<Rightarrow> jsval \<Rightarrow> (string \<times> jsval) list \<Rightarrow> js_error + SecurityIssue list" where
  "credentialEntries node nodeName_v [] = Inr []"
| "credentialEntries node nodeName_v ((credType, c) # rest) =
     bindE (get c ''id'') (\<lambda>cid.
       bindE (credentialEntries node nodeName_v rest) (\<lambda>more.
         Inr ((if truthy cid
               then [issue low ''Credential Reference''
                       (''Node references credential of type '' @ apostrophe @ credType @ apostrophe
                        @ ''. Ensure credentials are properly secured.'')
                       node nodeName_v]
               else []) @ more)))"

definition credentialReference :: "jsval \<Rightarrow> jsval \<Rightarrow> js_error + SecurityIssue list" where
  "credentialReference node nodeName_v =
     (if truthy (read_prop node ''credentials'')
      then credentialEntries node nodeName_v (entries (read_prop node ''credentials''))
      else Inr [])"

definition codeExecutionNodes :: "string list" where
  "codeExecutionNodes =
     [''n8n-nodes-base.code'', ''n8n-nodes-base.function'', ''n8n-nodes-base.functionItem'']"

definition codeExecutionRisk :: "jsval \<Rightarrow> jsval \<Rightarrow> SecurityIssue list" where
  \<comment> \<open>\<^verbatim>\<open>codeExecutionNodes.includes(node.type)\<close>: the type is one of the listed strings\<close>
  "codeExecutionRisk node nodeName_v =
     (if read_prop node ''type'' \<in> JStr ` set codeExecutionNodes
      then [issue high ''Code Execution Risk''
              ''Node can execute custom code. Malicious code execution can compromise the entire system.''
              node nodeName_v]
      else [])"

definition externalHttpRequest :: "jsval \<Rightarrow> jsval \<Rightarrow> SecurityIssue list" where
  "externalHttpRequest node nodeName_v =
     (if read_prop node ''type'' = JStr ''n8n-nodes-base.httpRequest''
         \<and> truthy (read_prop (read_prop node ''parameters'') ''url'')
      then
        (case read_prop (read_prop node ''parameters'') ''url'' of
           JStr url \<Rightarrow>
             if str_includes url ''http://'' \<or> str_includes url ''https://''
             then [issue (if str_includes url ''http://'' then high else medium)
                     ''External HTTP Request''
                     (''Node makes HTTP requests to: '' @ url @ ''. ''
                      @ (if str_includes url ''http://''
                         then ''Unencrypted HTTP connections expose data in transit.''
                         else ''External requests may leak sensitive data.''))
                     node nodeName_v]
             else []
         | _ \<Rightarrow> [])
      else [])"

definition webhookExposure :: "jsval \<Rightarrow> jsval \<Rightarrow> SecurityIssue list" where
  "webhookExposure node nodeName_v =
     (let ty = read_prop node ''type'' in
      if incl ty ''trigger'' \<or> incl ty ''webhook'' \<or> incl ty ''form''
      then
        if truthy (read_prop node ''webhookId'') \<or> incl ty ''webhook''
        then [issue medium ''Webhook Exposure''
                ''Node exposes a webhook endpoint. Unsecured webhooks can be exploited by attackers.''
                node nodeName_v]
        else []
      else [])"

definition socialMediaIntegrationRisk :: "jsval \<Rightarrow> jsval \<Rightarrow> SecurityIssue list" where
  "socialMediaIntegrationRisk node nodeName_v =
     (let ty = read_prop node ''type'' in
      if incl ty ''linkedIn'' \<or> incl ty ''twitter'' \<or> incl ty ''facebook''
      then [issue medium ''Social Media Integration Risk''
              ''Node integrates with social media platforms. Compromised accounts can lead to reputation damage and data exposure.''
              node nodeName_v]
      else [])"

definition databaseSecurityRisk :: "jsval \<Rightarrow> jsval \<Rightarrow> SecurityIssue list" where
  "databaseSecurityRisk node nodeName_v =
     (let ty = read_prop node ''type'' in
      if incl ty ''postgres'' \<or> incl ty ''mysql'' \<or> incl ty ''database''
      then [issue high ''Database Security Risk''
              ''Direct database access detected. Improper database queries can lead to SQL injection and data breaches.''
              node nodeName_v]
      else [])"

definition fileSystemAccessRisk :: "jsval \<Rightarrow> jsval \<Rightarrow> SecurityIssue list" where
  "fileSystemAccessRisk node nodeName_v =
     (let ty = read_prop node ''type'' in
      if incl ty ''file'' \<or> incl ty ''fs''
      then [issue medium ''File System Access Risk''
              ''File system operations detected. Unrestricted file access can lead to data exposure and system compromise.''
              node nodeName_v]
      else [])"

subsection \<open>The function\<close>

text \<open>
  \<^verbatim>\<open>checkNodeSecurity(node, securityIssues)\<close> pushes onto the array it is given; the
  model returns the array after the call, or the exception that left the function.
  Only two blocks can throw; the model runs them first, in the source's order, and
  then lists the issues of all blocks in the source's order. What was pushed before an
  exception is lost with the array, which is local to \<^verbatim>\<open>validateN8nWorkflow\<close>.
\<close>

definition checkNodeSecurity :: "jsval \<Rightarrow> SecurityIssue list \<Rightarrow> js_error + SecurityIssue list" where
  "checkNodeSecurity node issues =
     bindE (get node ''name'') (\<lambda>nm.
       let nodeName_v = or_js nm (or_js (read_prop node ''id'') (JStr ''Unknown'')) in
       bindE (includes_js ''node.type'' (read_prop node ''type'') ''stickyNote'') (\<lambda>sticky.
         if sticky then Inr issues
         else
           bindE (excessiveAgency node nodeName_v) (\<lambda>agency.
           bindE (credentialReference node nodeName_v) (\<lambda>creds.
             Inr (issues
                  @ promptInjection node nodeName_v
                  @ insecureOutputHandling node nodeName_v
                  @ trainingDataPoisoning node nodeName_v
                  @ modelDenialOfService node nodeName_v
                  @ sensitiveInformationDisclosure node nodeName_v
                  @ insecurePluginDesign node nodeName_v
                  @ agency
                  @ overreliance node nodeName_v
                  @ modelTheft node nodeName_v
                  @ insecurePlanning node nodeName_v
                  @ memoryPoisoning node nodeName_v
                  @ creds
                  @ codeExecutionRisk node nodeName_v
                  @ externalHttpRequest node nodeName_v
                  @ webhookExposure node nodeName_v
                  @ socialMediaIntegrationRisk node nodeName_v
                  @ databaseSecurityRisk node nodeName_v
                  @ fileSystemAccessRisk node nodeName_v)))))"

section \<open>\<^verbatim>\<open>validateN8nWorkflow\<close>\<close>

definition isN8nWorkflow_value :: "jsval \<Rightarrow> jsval" where
  \<comment> \<open>\<^verbatim>\<open>data && (data.nodes || data.connections || data.meta?.instanceId || data.name)\<close>\<close>
  "isN8nWorkflow_value data =
     and_js data
       (or_js (read_prop data ''nodes'')
         (or_js (read_prop data ''connections'')
           (or_js (read_prop (read_prop data ''meta'') ''instanceId'')
                  (read_prop data ''name''))))"

text \<open>
  The callback of \<^verbatim>\<open>data.nodes.forEach\<close>, on the three arrays it pushes onto:
  errors, warnings and security issues.
\<close>

definition displayName :: "jsval \<Rightarrow> nat \<Rightarrow> jsval" where
  \<comment> \<open>\<^verbatim>\<open>node.name || node.id || index\<close>\<close>
  "displayName node index =
     or_js (read_prop node ''name'') (or_js (read_prop node ''id'') (JNum (int index)))"

definition missing_id_error :: "nat \<Rightarrow> string" where
  "missing_id_error index =
     ''Node at index '' @ decimal index @ '' is missing required 'id' field''"

definition missing_type_error :: "string \<Rightarrow> string" where
  "missing_type_error shown =
     ''Node '' @ apostrophe @ shown @ apostrophe @ '' is missing required 'type' field''"

definition missing_typeVersion_warning :: "string \<Rightarrow> string" where
  "missing_typeVersion_warning shown =
     ''Node '' @ apostrophe @ shown @ apostrophe @ '' is missing 'typeVersion' field''"

definition nodeCallback ::
  "jsval \<Rightarrow> nat \<Rightarrow> string list \<times> string list \<times> SecurityIssue list
     \<Rightarrow> js_error + (string list \<times> string list \<times> SecurityIssue list)" where
  "nodeCallback node index st =
     (case st of (errs, warns, issues) \<Rightarrow>
      bindE (get node ''id'') (\<lambda>node_id.
      let errs1 = (if \<not> truthy node_id then errs @ [missing_id_error index] else errs) in
      bindE (if \<not> truthy (read_prop node ''type'')
             then bindE (toString (displayName node index)) (\<lambda>shown.
                    Inr (errs1 @ [missing_type_error shown]))
             else Inr errs1) (\<lambda>errs2.
      bindE (if \<not> truthy (read_prop node ''typeVersion'')
             then bindE (toString (displayName node index)) (\<lambda>shown.
                    Inr (warns @ [missing_typeVersion_warning shown]))
             else Inr warns) (\<lambda>warns1.
      bindE (checkNodeSecurity node issues) (\<lambda>issues1.
        Inr (errs2, warns1, issues1))))))"

fun nodes_forEach ::
  "jsval list \<Rightarrow> nat \<Rightarrow> string list \<times> string list \<times> SecurityIssue list
     \<Rightarrow> js_error + (string list \<times> string list \<times> SecurityIssue list)" where
  "nodes_forEach [] index st = Inr st"
| "nodes_forEach (node # rest) index st =
     bindE (nodeCallback node index st) (nodes_forEach rest (Suc index))"

definition metaInfo :: "jsval \<Rightarrow> js_error + string list" where
  "metaInfo data =
     (let meta = read_prop data ''meta'' in
      if truthy meta
      then
        bindE (if truthy (read_prop meta ''instanceId'')
               then bindE (toString (read_prop meta ''instanceId'')) (\<lambda>shown.
                      Inr [''Workflow from instance: '' @ shown])
               else Inr []) (\<lambda>info1.
          Inr (info1 @ (if truthy (read_prop meta ''templateCredsSetupCompleted'')
                        then [''Template credentials setup completed''] else [])))
      else Inr [])"

definition countConnections :: "jsval \<Rightarrow> nat" where
  \<comment> \<open>the value of \<^verbatim>\<open>connectionCount\<close> after the loops over \<^verbatim>\<open>data.connections\<close>\<close>
  "countConnections conns =
     (if truthy conns
      then sum_list (map (\<lambda>nodeConnections.
             if truthy nodeConnections \<and> typeof_object nodeConnections
             then sum_list (map (\<lambda>outputs.
                    if isArray outputs
                    then sum_list (map (\<lambda>outputConnections.
                           if isArray outputConnections
                           then length (elements outputConnections) else 0)
                         (elements outputs))
                    else 0)
                  (values_js nodeConnections))
             else 0)
           (values_js conns))
      else 0)"

definition notSticky :: "jsval \<Rightarrow> js_error + bool" where
  \<comment> \<open>the callback \<^verbatim>\<open>(node) => !node.type.includes("stickyNote")\<close>\<close>
  "notSticky node =
     bindE (get node ''type'') (\<lambda>ty.
       bindE (includes_js ''node.type'' ty ''stickyNote'') (\<lambda>b. Inr (\<not> b)))"

definition actualNodes :: "string \<Rightarrow> jsval \<Rightarrow> js_error + jsval list" where
  \<comment> \<open>\<^verbatim>\<open>nodes.filter((node) => !node.type.includes("stickyNote"))\<close>; the first argument
      is the source text of the receiver\<close>
  "actualNodes what ns =
     (if nullish ns then Inl (cannot_read ns ''filter'')
      else if isArray ns then filterE notSticky (elements ns)
      else Inl (not_a_function (what @ ''.filter'')))"

definition validateN8nWorkflow :: "jsval \<Rightarrow> js_error + ValidationResult" where
  "validateN8nWorkflow data =
     (if \<not> truthy (isN8nWorkflow_value data)
      then Inr \<lparr>isValid = False, isN8nWorkflow = False,
                errors = [''This doesn't appear to be an n8n workflow file''],
                warnings = [], info = [], securityIssues = [], workflowInfo = None\<rparr>
      else
        (let ns = read_prop data ''nodes''; conns = read_prop data ''connections'';
             errs0 = (if \<not> truthy ns \<or> \<not> isArray ns
                      then [''Missing or invalid 'nodes' array''] else [])
                     @ (if \<not> truthy conns \<or> \<not> typeof_object conns
                        then [''Missing or invalid 'connections' object''] else [])
         in
         bindE (if truthy ns \<and> isArray ns
                then nodes_forEach (elements ns) 0 (errs0, [], [])
                else Inr (errs0, [], [])) (\<lambda>(errs, warns, issues).
         bindE (metaInfo data) (\<lambda>info0.
         let connectionCount = countConnections conns in
         bindE (actualNodes ''data.nodes'' ns) (\<lambda>actual.
         let wf = \<lparr>name = or_js (read_prop data ''name'') (JStr ''Unnamed Workflow''),
                   nodes = length actual,
                   connections = connectionCount,
                   version = read_prop (read_prop data ''meta'') ''version''\<rparr>
         in
         Inr \<lparr>isValid = (errs = []), isN8nWorkflow = True,
               errors = errs, warnings = warns,
               info = info0 @ [''Workflow contains '' @ decimal (nodes wf) @ '' nodes and ''
                               @ decimal (connections wf) @ '' connections''],
               securityIssues = issues, workflowInfo = Some wf\<rparr>)))))"

section \<open>\<^verbatim>\<open>analyzeJson\<close>\<close>

text \<open>
  The component's state that \<^verbatim>\<open>analyzeJson\<close> writes. \<^verbatim>\<open>JSON.parse\<close> belongs to the
  runtime, not to the repository: it is a parameter, returning the parsed value or the
  \<^verbatim>\<open>SyntaxError\<close> it throws.
\<close>

record app_state =
  result :: "ValidationResult option"
  workflowData :: jsval
  isAnalyzing :: bool

definition failure :: "string \<Rightarrow> ValidationResult" where
  "failure msg =
     \<lparr>isValid = False, isN8nWorkflow = False, errors = [msg],
      warnings = [], info = [], securityIssues = [], workflowInfo = None\<rparr>"

definition analyzeJson :: "(string \<Rightarrow> js_error + jsval) \<Rightarrow> string \<Rightarrow> app_state \<Rightarrow> app_state" where
  "analyzeJson JSON_parse jsonInput st =
     (if trim jsonInput = []
      then st\<lparr>result := Some (failure ''Please provide JSON input'')\<rparr>
      else
        (case bindE (JSON_parse jsonInput) (\<lambda>parsed.
                bindE (validateN8nWorkflow parsed) (\<lambda>validation. Inr (parsed, validation)))
         of Inr (parsed, validation) \<Rightarrow>
              st\<lparr>workflowData := parsed, result := Some validation, isAnalyzing := False\<rparr>
          | Inl error \<Rightarrow>
              st\<lparr>result := Some (failure (''Invalid JSON format: '' @ error_message error)),
                 workflowData := JNull, isAnalyzing := False\<rparr>))"

section \<open>The report generator's count of secure nodes\<close>

text \<open>
  \<^verbatim>\<open>new Set(...).has(node.id)\<close> compares with SameValueZero, which on strings,
  numbers, booleans, \<^verbatim>\<open>null\<close> and \<^verbatim>\<open>undefined\<close> is equality of values.
\<close>

definition nodesWithIssues :: "SecurityIssue list \<Rightarrow> jsval set" where
  \<comment> \<open>\<^verbatim>\<open>new Set(securityIssues.map((issue) => issue.nodeId).filter(Boolean))\<close>\<close>
  "nodesWithIssues issues = set (filter truthy (map nodeId issues))"

definition calculateSecureNodes :: "jsval \<Rightarrow> SecurityIssue list \<Rightarrow> js_error + nat" where
  "calculateSecureNodes data issues =
     (if \<not> truthy (read_prop data ''nodes'') then Inr 0
      else
        bindE (actualNodes ''workflowData.nodes'' (read_prop data ''nodes'')) (\<lambda>actual.
          Inr (length (filter (\<lambda>node. read_prop node ''id'' \<notin> nodesWithIssues issues) actual))))"

definition secureNodesCount :: "jsval \<Rightarrow> SecurityIssue list \<Rightarrow> js_error + nat" where
  \<comment> \<open>the same count as \<^verbatim>\<open>generateReportHTML\<close> computes it\<close>
  "secureNodesCount data issues =
     bindE (if truthy (read_prop data ''nodes'')
            then actualNodes ''workflowData.nodes'' (read_prop data ''nodes'')
            else Inr []) (\<lambda>actual.
       Inr (length (filter (\<lambda>node. read_prop node ''id'' \<notin> nodesWithIssues issues) actual)))"

section \<open>Sample documents and specification-side notions\<close>

subsection \<open>The scenario document\<close>

definition demo_input :: string where
  \<open>demo_input = ''{"name":"Demo","nodes":[{"id":"1","type":"n8n-nodes-base.httpRequest","parameters":{"url":"http://example.com"}}],"connections":{}}''\<close>

definition demo_node :: jsval where
  "demo_node =
     JObj [(''id'', JStr ''1''), (''type'', JStr ''n8n-nodes-base.httpRequest''),
           (''parameters'', JObj [(''url'', JStr ''http://example.com'')])]"

definition demo_doc :: jsval where
  \<comment> \<open>the value of \<open>demo_input\<close>\<close>
  "demo_doc =
     JObj [(''name'', JStr ''Demo''), (''nodes'', JArr [demo_node]), (''connections'', JObj [])]"

definition initial_state :: app_state where
  \<comment> \<open>the component's state before the first analysis\<close>
  "initial_state = \<lparr>result = None, workflowData = JNull, isAnalyzing = False\<rparr>"

definition demo_issue :: SecurityIssue where
  "demo_issue =
     issue high ''External HTTP Request''
       ''Node makes HTTP requests to: http://example.com. Unencrypted HTTP connections expose data in transit.''
       demo_node (JStr ''1'')"

definition demo_report :: ValidationResult where
  "demo_report =
     \<lparr>isValid = True, isN8nWorkflow = True, errors = [],
      warnings = [missing_typeVersion_warning ''1''],
      info = [''Workflow contains 1 nodes and 0 connections''],
      securityIssues = [demo_issue],
      workflowInfo = Some \<lparr>name = JStr ''Demo'', nodes = 1, connections = 0, version = JUndefined\<rparr>\<rparr>"

subsection \<open>Per-node findings\<close>

definition findings_of :: "jsval \<Rightarrow> SecurityIssue list" where
  \<comment> \<open>what \<open>checkNodeSecurity\<close> pushes for a node, when it returns\<close>
  "findings_of node = (case checkNodeSecurity node [] of Inr found \<Rightarrow> found | Inl e \<Rightarrow> [])"

subsection \<open>Inputs for the entry point and the validator\<close>

definition blank_input :: string where
  "blank_input = ''   ''"

definition truncated_input :: string where
  \<open>truncated_input = ''{"name":''\<close>

definition no_nodes_input :: string where
  \<open>no_nodes_input = ''{"name":"Demo"}''\<close>

definition no_nodes_doc :: jsval where
  "no_nodes_doc = JObj [(''name'', JStr ''Demo'')]"

definition untyped_input :: string where
  \<open>untyped_input = ''{"name":"Demo","nodes":[{"id":"1"}],"connections":{}}''\<close>

definition untyped_doc :: jsval where
  "untyped_doc =
     JObj [(''name'', JStr ''Demo''), (''nodes'', JArr [JObj [(''id'', JStr ''1'')]]),
           (''connections'', JObj [])]"




definition reject_all :: "string \<Rightarrow> js_error + jsval" where
  "reject_all s = Inl (SyntaxError ''Unexpected end of JSON input'')"

subsection \<open>Workflow-identifying attributes\<close>

definition has_member :: "jsval \<Rightarrow> string \<Rightarrow> bool" where
  \<comment> \<open>the value is an object with an own member of that name, whatever its value\<close>
  "has_member v k = (case v of JObj kvs \<Rightarrow> k \<in> fst ` set kvs | _ \<Rightarrow> False)"

definition exposes_workflow_attribute :: "jsval \<Rightarrow> bool" where
  "exposes_workflow_attribute d =
     (has_member d ''nodes'' \<or> has_member d ''connections''
      \<or> has_member (read_prop d ''meta'') ''instanceId'' \<or> has_member d ''name'')"

definition has_truthy_workflow_attribute :: "jsval \<Rightarrow> bool" where
  "has_truthy_workflow_attribute d =
     (truthy (read_prop d ''nodes'') \<or> truthy (read_prop d ''connections'')
      \<or> truthy (read_prop (read_prop d ''meta'') ''instanceId'') \<or> truthy (read_prop d ''name''))"

definition not_a_workflow :: ValidationResult where
  "not_a_workflow = failure ''This doesn't appear to be an n8n workflow file''"

definition empty_name_doc :: jsval where
  \<comment> \<open>\<^verbatim>\<open>{"name":""}\<close>\<close>
  "empty_name_doc = JObj [(''name'', JStr [])]"

definition unrelated_doc :: jsval where
  \<comment> \<open>\<^verbatim>\<open>{"title":"x"}\<close>\<close>
  "unrelated_doc = JObj [(''title'', JStr ''x'')]"

subsection \<open>Counting edges\<close>

text \<open>
  The connection count as the specification words it: a mapping from source node to a
  mapping from category to an array of output slots, each an array of edges; a value of
  another shape at one of these levels contributes 0.
\<close>

fun edges_in_slot :: "jsval \<Rightarrow> nat" where
  "edges_in_slot (JArr edges) = length edges"
| "edges_in_slot _ = 0"

fun edges_in_slots :: "jsval \<Rightarrow> nat" where
  "edges_in_slots (JArr slots) = sum_list (map edges_in_slot slots)"
| "edges_in_slots _ = 0"

fun edges_in_categories :: "jsval \<Rightarrow> nat" where
  "edges_in_categories (JObj categories) = sum_list (map (\<lambda>(category, slots). edges_in_slots slots) categories)"
| "edges_in_categories _ = 0"

fun edges_in_map :: "jsval \<Rightarrow> nat" where
  "edges_in_map (JObj sources) = sum_list (map (\<lambda>(src, categories). edges_in_categories categories) sources)"
| "edges_in_map _ = 0"

text \<open>
  The count with an array accepted where a mapping is expected: its elements are walked
  as a mapping's values are.
\<close>

fun members :: "jsval \<Rightarrow> jsval list" where
  "members (JObj kvs) = map snd kvs"
| "members (JArr xs) = xs"
| "members _ = []"

definition edges_in_containers :: "jsval \<Rightarrow> nat" where
  "edges_in_containers conns =
     sum_list (map (\<lambda>inner. sum_list (map edges_in_slots (members inner))) (members conns))"

definition array_branch :: jsval where
  \<comment> \<open>\<^verbatim>\<open>{"A":[[["B"]]]}\<close>: an array where the mapping of categories is expected\<close>
  "array_branch = JObj [(''A'', JArr [JArr [JArr [JStr ''B'']]])]"

definition array_branch_doc :: jsval where
  "array_branch_doc = JObj [(''nodes'', JArr []), (''connections'', array_branch)]"

definition array_branch_report :: ValidationResult where
  "array_branch_report =
     \<lparr>isValid = True, isN8nWorkflow = True, errors = [], warnings = [],
      info = [''Workflow contains 0 nodes and 1 connections''], securityIssues = [],
      workflowInfo = Some \<lparr>name = JStr ''Unnamed Workflow'', nodes = 0, connections = 1,
                            version = JUndefined\<rparr>\<rparr>"

definition wired_connections :: jsval where
  \<comment> \<open>\<^verbatim>\<open>{"A":{"main":[[{"node":"B"},{"node":"C"}],[{"node":"D"}]],"bad":7},"B":null}\<close>\<close>
  "wired_connections =
     JObj [(''A'', JObj [(''main'', JArr [JArr [JObj [(''node'', JStr ''B'')], JObj [(''node'', JStr ''C'')]],
                                          JArr [JObj [(''node'', JStr ''D'')]]]),
                         (''bad'', JNum 7)]),
           (''B'', JNull)]"

subsection \<open>Issues of a node\<close>

text \<open>
  An issue belongs to the node whose \<^verbatim>\<open>id\<close> it carries: \<open>checkNodeSecurity\<close> copies
  \<^verbatim>\<open>node.id\<close> into \<^verbatim>\<open>nodeId\<close>, and the graph view selects a node's issues by
  \<^verbatim>\<open>issue.nodeId === node.id\<close>.
\<close>

definition associated :: "SecurityIssue \<Rightarrow> jsval \<Rightarrow> bool" where
  "associated f node = (nodeId f = read_prop node ''id'')"

definition is_annotation :: "jsval \<Rightarrow> bool" where
  "is_annotation node = incl (read_prop node ''type'') ''stickyNote''"

definition zero_findings_count :: "jsval list \<Rightarrow> SecurityIssue list \<Rightarrow> nat" where
  \<comment> \<open>the nodes that are not annotations and have no issue associated with them\<close>
  "zero_findings_count ns issues =
     length (filter (\<lambda>node. \<not> is_annotation node \<and> \<not> (\<exists>f \<in> set issues. associated f node)) ns)"

definition idless_node :: jsval where
  "idless_node = JObj [(''name'', JStr ''Run''), (''type'', JStr ''n8n-nodes-base.code'')]"

definition idless_doc :: jsval where
  \<comment> \<open>\<^verbatim>\<open>{"name":"Demo","nodes":[{"name":"Run","type":"n8n-nodes-base.code"}],"connections":{}}\<close>\<close>
  "idless_doc =
     JObj [(''name'', JStr ''Demo''), (''nodes'', JArr [idless_node]), (''connections'', JObj [])]"

definition idless_issue :: SecurityIssue where
  "idless_issue =
     issue high ''Code Execution Risk''
       ''Node can execute custom code. Malicious code execution can compromise the entire system.''
       idless_node (JStr ''Run'')"

definition idless_report :: ValidationResult where
  "idless_report =
     \<lparr>isValid = False, isN8nWorkflow = True,
      errors = [missing_id_error 0],
      warnings = [missing_typeVersion_warning ''Run''],
      info = [''Workflow contains 1 nodes and 0 connections''],
      securityIssues = [idless_issue],
      workflowInfo = Some \<lparr>name = JStr ''Demo'', nodes = 1, connections = 0, version = JUndefined\<rparr>\<rparr>"

subsection \<open>String values, pattern matches and sample nodes\<close>

definition nodeName_of :: "jsval \<Rightarrow> jsval" where
  \<comment> \<open>\<^verbatim>\<open>node.name || node.id || "Unknown"\<close>\<close>
  "nodeName_of node = or_js (read_prop node ''name'') (or_js (read_prop node ''id'') (JStr ''Unknown''))"

fun string_values :: "jsval \<Rightarrow> string list" where
  \<comment> \<open>every string value inside a value, in the order of traversal; keys are not values\<close>
  "string_values (JStr s) = [s]"
| "string_values (JObj kvs) = concat (map (\<lambda>(key, v). string_values v) kvs)"
| "string_values (JArr xs) = concat (map string_values xs)"
| "string_values _ = []"

definition matching_kinds :: "string \<Rightarrow> string list" where
  \<comment> \<open>the labels of the patterns that match a string, in the order of the pattern list\<close>
  "matching_kinds s = map snd (filter (\<lambda>(p, kind). test p s) sensitivePatterns)"

fun match_starts_from :: "bool \<Rightarrow> regex \<Rightarrow> char option \<Rightarrow> string \<Rightarrow> nat" where
  "match_starts_from i r prev [] = (if rmatch i r (prev, []) \<noteq> [] then 1 else 0)"
| "match_starts_from i r prev (c # cs) =
     (if rmatch i r (prev, c # cs) \<noteq> [] then 1 else 0) + match_starts_from i r (Some c) cs"

definition match_starts :: "pattern \<Rightarrow> string \<Rightarrow> nat" where
  \<comment> \<open>the number of occurrences of a match: the positions of the string where one begins\<close>
  "match_starts p s = match_starts_from (ignoreCase p) (source p) None s"

definition repeated_node :: jsval where
  "repeated_node =
     JObj [(''id'', JStr ''1''), (''type'', JStr ''n8n-nodes-base.set''),
           (''parameters'', JObj [(''note'', JStr ''password password'')])]"

definition nested_node :: jsval where
  "nested_node =
     JObj [(''id'', JStr ''2''), (''type'', JStr ''n8n-nodes-base.set''),
           (''parameters'',
            JObj [(''auth'', JObj [(''apiKey'', JStr ''my api_key and token'')]),
                  (''cards'', JArr [JStr ''4111 1111 1111 1111'', JNum 7])])]"

definition credentials_readable :: "jsval \<Rightarrow> bool" where
  \<comment> \<open>no credential entry is \<^verbatim>\<open>null\<close>\<close>
  "credentials_readable node =
     list_all (\<lambda>(credType, c). \<not> nullish c) (entries (read_prop node ''credentials''))"

definition codeExecutionIssue :: "jsval \<Rightarrow> jsval \<Rightarrow> SecurityIssue" where
  "codeExecutionIssue node nm =
     issue high ''Code Execution Risk''
       ''Node can execute custom code. Malicious code execution can compromise the entire system.''
       node nm"

definition code_node :: jsval where
  "code_node = JObj [(''id'', JStr ''3''), (''name'', JStr ''Run''), (''type'', JStr ''n8n-nodes-base.code''),
                     (''credentials'', JObj [(''httpBasicAuth'', JObj [(''id'', JStr ''9'')])])]"

definition lookalike_node :: jsval where
  "lookalike_node = JObj [(''id'', JStr ''4''), (''type'', JStr ''custom.n8n-nodes-base.code.v2'')]"

definition database_code_node :: jsval where
  "database_code_node = JObj [(''id'', JStr ''5''), (''type'', JStr ''database.code'')]"

subsection \<open>A code node with a null credential entry\<close>

definition null_credential_node :: jsval where
  "null_credential_node =
     JObj [(''id'', JStr ''3''), (''type'', JStr ''n8n-nodes-base.code''),
           (''credentials'', JObj [(''a'', JNull)])]"

definition null_credential_doc :: jsval where
  "null_credential_doc =
     JObj [(''name'', JStr ''Demo''), (''nodes'', JArr [null_credential_node]),
           (''connections'', JObj [])]"

definition null_credential_input :: string where
  \<open>null_credential_input = ''{"name":"Demo","nodes":[{"id":"3","type":"n8n-nodes-base.code","credentials":{"a":null}}],"connections":{}}''\<close>

section \<open>Properties\<close>

subsection \<open>How results and exceptions propagate\<close>

lemma bindE_Inr_iff: "bindE m f = Inr y \<longleftrightarrow> (\<exists>x. m = Inr x \<and> f x = Inr y)"
  by (cases m) (simp_all add: bindE_def)

lemma bindE_Inl_iff: "bindE m f = Inl e \<longleftrightarrow> (m = Inl e \<or> (\<exists>x. m = Inr x \<and> f x = Inl e))"
  by (cases m) (simp_all add: bindE_def)

lemma bindE_simps [simp]: "bindE (Inl e) f = Inl e" "bindE (Inr x) f = f x"
  by (simp_all add: bindE_def)

lemma checkNodeSecurity_append:
  "checkNodeSecurity node issues =
     (case checkNodeSecurity node [] of Inl e \<Rightarrow> Inl e | Inr found \<Rightarrow> Inr (issues @ found))"
  unfolding checkNodeSecurity_def Let_def
  by (auto simp: bindE_def split: sum.splits)

lemma checkNodeSecurity_Inr:
  "checkNodeSecurity node issues = Inr out \<Longrightarrow> out = issues @ findings_of node"
  by (subst (asm) checkNodeSecurity_append) (auto simp: findings_of_def split: sum.splits)

lemma includes_js_Inr:
  "includes_js what v p = Inr b \<Longrightarrow> (\<exists>s. v = JStr s) \<or> (\<exists>xs. v = JArr xs)"
  by (cases v) simp_all

lemma includes_js_incl: "includes_js what v p = Inr b \<Longrightarrow> b = incl v p"
  by (cases v) auto

lemma checkNodeSecurity_Inr_type:
  "checkNodeSecurity node issues = Inr out \<Longrightarrow>
     \<not> nullish node \<and> ((\<exists>s. read_prop node ''type'' = JStr s) \<or> (\<exists>xs. read_prop node ''type'' = JArr xs))"
  unfolding checkNodeSecurity_def Let_def
  by (auto simp: bindE_Inr_iff get_def dest: includes_js_Inr split: if_splits)


lemma nodeCallback_Inr:
  assumes "nodeCallback node index (errs, warns, issues) = Inr (errs', warns', issues')"
  shows "\<exists>de dw. errs' = errs @ de \<and> warns' = warns @ dw
            \<and> issues' = issues @ findings_of node
            \<and> (\<not> truthy (read_prop node ''id'') \<longrightarrow> missing_id_error index \<in> set de)
            \<and> (\<not> truthy (read_prop node ''type'') \<longrightarrow>
                  (\<exists>shown. toString (displayName node index) = Inr shown \<and> missing_type_error shown \<in> set de))
            \<and> (\<not> truthy (read_prop node ''typeVersion'') \<longrightarrow>
                  (\<exists>shown. toString (displayName node index) = Inr shown
                     \<and> missing_typeVersion_warning shown \<in> set dw))"
  using assms unfolding nodeCallback_def Let_def
  by (auto simp: bindE_Inr_iff get_def missing_id_error_def missing_type_error_def
        missing_typeVersion_warning_def dest!: checkNodeSecurity_Inr split: if_splits)

lemma nodeCallback_mono:
  assumes "nodeCallback node index (errs, warns, issues) = Inr (errs', warns', issues')"
  shows "set errs \<subseteq> set errs' \<and> set warns \<subseteq> set warns'"
  using nodeCallback_Inr [OF assms] by auto


lemma nodes_forEach_mono:
  "nodes_forEach ns index (errs, warns, issues) = Inr (errs', warns', issues')
     \<Longrightarrow> set errs \<subseteq> set errs' \<and> set warns \<subseteq> set warns'"
proof (induction ns arbitrary: index errs warns issues)
  case Nil
  then show ?case by simp
next
  case (Cons node rest)
  from Cons.prems obtain e1 w1 s1 where
    step: "nodeCallback node index (errs, warns, issues) = Inr (e1, w1, s1)" and
    rest: "nodes_forEach rest (Suc index) (e1, w1, s1) = Inr (errs', warns', issues')"
    by (auto simp: bindE_Inr_iff)
  from nodeCallback_mono [OF step] Cons.IH [OF rest] show ?case by blast
qed

lemma nodes_forEach_step:
  "nodes_forEach ns index (errs, warns, issues) = Inr (errs', warns', issues')
     \<Longrightarrow> j < length ns
     \<Longrightarrow> \<exists>e w s e1 w1 s1.
           nodeCallback (ns ! j) (index + j) (e, w, s) = Inr (e1, w1, s1)
           \<and> set e1 \<subseteq> set errs' \<and> set w1 \<subseteq> set warns'"
proof (induction ns arbitrary: index errs warns issues j)
  case Nil
  then show ?case by simp
next
  case (Cons node rest)
  from Cons.prems(1) obtain e1 w1 s1 where
    step: "nodeCallback node index (errs, warns, issues) = Inr (e1, w1, s1)" and
    rest: "nodes_forEach rest (Suc index) (e1, w1, s1) = Inr (errs', warns', issues')"
    by (auto simp: bindE_Inr_iff)
  show ?case
  proof (cases j)
    case 0
    with step nodes_forEach_mono [OF rest] show ?thesis by (simp, blast)
  next
    case (Suc k)
    with Cons.prems(2) have "k < length rest" by simp
    from Cons.IH [OF rest this] Suc show ?thesis by simp
  qed
qed

lemma nodeCallback_Inr_type:
  assumes "nodeCallback node index st = Inr st'"
  shows "\<not> nullish node
         \<and> ((\<exists>s. read_prop node ''type'' = JStr s) \<or> (\<exists>xs. read_prop node ''type'' = JArr xs))"
  using assms unfolding nodeCallback_def Let_def
  by (auto simp: bindE_Inr_iff dest!: checkNodeSecurity_Inr_type split: prod.splits)

lemma notSticky_Inr:
  "notSticky node = Inr b \<Longrightarrow> b = (\<not> incl (read_prop node ''type'') ''stickyNote'')"
  unfolding notSticky_def
  by (auto simp: bindE_Inr_iff get_def dest: includes_js_incl split: if_splits)

lemma filterE_notSticky:
  "filterE notSticky ns = Inr actual
     \<Longrightarrow> actual = filter (\<lambda>node. \<not> incl (read_prop node ''type'') ''stickyNote'') ns"
proof (induction ns arbitrary: actual)
  case Nil
  then show ?case by simp
next
  case (Cons node rest)
  from Cons.prems obtain keep ys where
    k: "notSticky node = Inr keep" and r: "filterE notSticky rest = Inr ys" and
    a: "actual = (if keep then node # ys else ys)"
    by (auto simp: bindE_Inr_iff)
  from notSticky_Inr [OF k] Cons.IH [OF r] a show ?case by simp
qed

lemma actualNodes_Inr:
  assumes "actualNodes what v = Inr actual"
  shows "\<exists>ns. v = JArr ns
            \<and> actual = filter (\<lambda>node. \<not> incl (read_prop node ''type'') ''stickyNote'') ns"
proof -
  from assms have "isArray v" and f: "filterE notSticky (elements v) = Inr actual"
    by (auto simp: actualNodes_def split: if_splits)
  then obtain ns where "v = JArr ns" by (cases v) simp_all
  with f filterE_notSticky show ?thesis by auto
qed

lemma validate_not_workflow:
  "\<not> truthy (isN8nWorkflow_value d) \<Longrightarrow>
     validateN8nWorkflow d = Inr (failure ''This doesn't appear to be an n8n workflow file'')"
  by (simp add: validateN8nWorkflow_def failure_def)

lemma validate_Inr_workflow:
  assumes "validateN8nWorkflow d = Inr r" "truthy (isN8nWorkflow_value d)"
  shows "\<exists>ns errs0.
           read_prop d ''nodes'' = JArr ns
           \<and> nodes_forEach ns 0 (errs0, [], []) = Inr (errors r, warnings r, securityIssues r)
           \<and> isValid r = (errors r = []) \<and> isN8nWorkflow r
           \<and> workflowInfo r =
                 Some \<lparr>name = or_js (read_prop d ''name'') (JStr ''Unnamed Workflow''),
                       nodes = length (filter (\<lambda>node. \<not> incl (read_prop node ''type'') ''stickyNote'') ns),
                       connections = countConnections (read_prop d ''connections''),
                       version = read_prop (read_prop d ''meta'') ''version''\<rparr>"
proof -
  from assms obtain errs warns issues info0 actual where
    loop: "(if truthy (read_prop d ''nodes'') \<and> isArray (read_prop d ''nodes'')
            then nodes_forEach (elements (read_prop d ''nodes'')) 0
                   ((if \<not> truthy (read_prop d ''nodes'') \<or> \<not> isArray (read_prop d ''nodes'')
                     then [''Missing or invalid 'nodes' array''] else [])
                    @ (if \<not> truthy (read_prop d ''connections'') \<or> \<not> typeof_object (read_prop d ''connections'')
                       then [''Missing or invalid 'connections' object''] else []), [], [])
            else Inr ((if \<not> truthy (read_prop d ''nodes'') \<or> \<not> isArray (read_prop d ''nodes'')
                     then [''Missing or invalid 'nodes' array''] else [])
                    @ (if \<not> truthy (read_prop d ''connections'') \<or> \<not> typeof_object (read_prop d ''connections'')
                       then [''Missing or invalid 'connections' object''] else []), [], []))
           = Inr (errs, warns, issues)" and
    act: "actualNodes ''data.nodes'' (read_prop d ''nodes'') = Inr actual" and
    r: "r = \<lparr>isValid = (errs = []), isN8nWorkflow = True, errors = errs, warnings = warns,
             info = info0 @ [''Workflow contains '' @ decimal (length actual) @ '' nodes and ''
                             @ decimal (countConnections (read_prop d ''connections'')) @ '' connections''],
             securityIssues = issues,
             workflowInfo = Some \<lparr>name = or_js (read_prop d ''name'') (JStr ''Unnamed Workflow''),
                   nodes = length actual,
                   connections = countConnections (read_prop d ''connections''),
                   version = read_prop (read_prop d ''meta'') ''version''\<rparr>\<rparr>"
    unfolding validateN8nWorkflow_def Let_def
    by (auto simp: bindE_Inr_iff split: prod.splits)
  from actualNodes_Inr [OF act] obtain ns where
    ns: "read_prop d ''nodes'' = JArr ns"
        "actual = filter (\<lambda>node. \<not> incl (read_prop node ''type'') ''stickyNote'') ns"
    by blast
  with loop r show ?thesis by auto
qed

lemma validate_throws_without_nodes_array:
  assumes "truthy (isN8nWorkflow_value d)" "\<not> isArray (read_prop d ''nodes'')"
  shows "\<exists>e. validateN8nWorkflow d = Inl e"
proof (cases "validateN8nWorkflow d")
  case (Inl e)
  then show ?thesis by blast
next
  case (Inr r)
  from validate_Inr_workflow [OF Inr assms(1)] assms(2) show ?thesis by auto
qed

lemma validate_throws_on_untyped_node:
  assumes "read_prop d ''nodes'' = JArr ns" "j < length ns"
    "\<forall>s. read_prop (ns ! j) ''type'' \<noteq> JStr s" "\<forall>xs. read_prop (ns ! j) ''type'' \<noteq> JArr xs"
  shows "\<exists>e. validateN8nWorkflow d = Inl e"
proof (cases "validateN8nWorkflow d")
  case (Inl e)
  then show ?thesis by blast
next
  case (Inr r)
  have wf: "truthy (isN8nWorkflow_value d)"
    using assms(1) by (cases d) (simp_all add: isN8nWorkflow_value_def and_js_def or_js_def)
  from validate_Inr_workflow [OF Inr wf] assms(1) obtain errs0 where
    "nodes_forEach ns 0 (errs0, [], []) = Inr (errors r, warnings r, securityIssues r)" by auto
  from nodes_forEach_step [OF this assms(2)] obtain st st' where
    "nodeCallback (ns ! j) j st = Inr st'" by auto
  from nodeCallback_Inr_type [OF this] assms(3,4) show ?thesis by blast
qed

subsection \<open>The scenario of the HTTP request node\<close>

lemma demo_input_not_blank: "trim demo_input \<noteq> []"
  by code_simp

lemma demo_checkNodeSecurity: "checkNodeSecurity demo_node [] = Inr [demo_issue]"
  by code_simp

lemma demo_validate: "validateN8nWorkflow demo_doc = Inr demo_report"
  by code_simp

lemma demo_http: "externalHttpRequest demo_node (JStr ''1'') = [demo_issue]"
  by code_simp

text \<open>
  C1. When \<^verbatim>\<open>JSON.parse\<close> maps the scenario text to the document it denotes,
  \<open>analyzeJson\<close> stores a report that is valid, counts 1 node and 0 connections and
  holds exactly one security issue, of type External HTTP Request and severity high;
  the issues of the node are those of the HTTP request block alone.
\<close>

theorem demo_scenario:
  assumes "JSON_parse demo_input = Inr demo_doc"
  shows "\<exists>r w f. result (analyzeJson JSON_parse demo_input st) = Some r
            \<and> isValid r \<and> errors r = []
            \<and> workflowInfo r = Some w \<and> nodes w = 1 \<and> connections w = 0
            \<and> securityIssues r = [f] \<and> type f = ''External HTTP Request'' \<and> severity f = high
            \<and> checkNodeSecurity demo_node [] = Inr (externalHttpRequest demo_node (JStr ''1''))"
proof -
  have "result (analyzeJson JSON_parse demo_input st) = Some demo_report"
    using assms by (simp add: analyzeJson_def demo_input_not_blank demo_validate bindE_def)
  moreover have "type demo_issue = ''External HTTP Request''" "severity demo_issue = high"
    by (simp_all add: demo_issue_def issue_def)
  ultimately show ?thesis
    by (simp add: demo_report_def demo_checkNodeSecurity demo_http)
qed

theorem demo_scenario_witness:
  "\<exists>r w f. result (analyzeJson (\<lambda>s. Inr demo_doc) demo_input initial_state) = Some r
            \<and> isValid r \<and> errors r = []
            \<and> workflowInfo r = Some w \<and> nodes w = 1 \<and> connections w = 0
            \<and> securityIssues r = [f] \<and> type f = ''External HTTP Request'' \<and> severity f = high
            \<and> checkNodeSecurity demo_node [] = Inr (externalHttpRequest demo_node (JStr ''1''))"
  using demo_scenario [of "\<lambda>s. Inr demo_doc" initial_state] by simp

subsection \<open>The entry point\<close>

lemma failure_fields:
  "errors (failure m) = [m]" "warnings (failure m) = []" "info (failure m) = []"
  "securityIssues (failure m) = []" "\<not> isValid (failure m)" "\<not> isN8nWorkflow (failure m)"
  "workflowInfo (failure m) = None"
  by (simp_all add: failure_def)

lemma analyzeJson_blank:
  "trim jsonInput = [] \<Longrightarrow>
     result (analyzeJson JSON_parse jsonInput st) = Some (failure ''Please provide JSON input'')"
  by (simp add: analyzeJson_def)

lemma analyzeJson_parse_error:
  "trim jsonInput \<noteq> [] \<Longrightarrow> JSON_parse jsonInput = Inl e \<Longrightarrow>
     result (analyzeJson JSON_parse jsonInput st)
       = Some (failure (''Invalid JSON format: '' @ error_message e))"
  by (simp add: analyzeJson_def)

lemma analyzeJson_validate_error:
  "trim jsonInput \<noteq> [] \<Longrightarrow> JSON_parse jsonInput = Inr d \<Longrightarrow> validateN8nWorkflow d = Inl e \<Longrightarrow>
     result (analyzeJson JSON_parse jsonInput st)
       = Some (failure (''Invalid JSON format: '' @ error_message e))"
  by (simp add: analyzeJson_def)

lemma analyzeJson_validated:
  "trim jsonInput \<noteq> [] \<Longrightarrow> JSON_parse jsonInput = Inr d \<Longrightarrow> validateN8nWorkflow d = Inr v \<Longrightarrow>
     result (analyzeJson JSON_parse jsonInput st) = Some v"
  by (simp add: analyzeJson_def)

text \<open>
  C2. \<open>analyzeJson\<close> always stores a report. Blank text gives the one error
  asking for input; text that \<^verbatim>\<open>JSON.parse\<close> rejects gives the one error
  \<^verbatim>\<open>Invalid JSON format:\<close> followed by the parser's message; an exception thrown
  while validating the parsed document is caught and reported in the same way; in each
  of these cases the report has no warning, no security issue and is not valid.
  Otherwise the stored report is the validator's.
\<close>

theorem analyzeJson_returns_report:
  "\<exists>r. result (analyzeJson JSON_parse jsonInput st) = Some r
     \<and> (trim jsonInput = [] \<longrightarrow> r = failure ''Please provide JSON input'')
     \<and> (\<forall>e. trim jsonInput \<noteq> [] \<and> JSON_parse jsonInput = Inl e
            \<longrightarrow> r = failure (''Invalid JSON format: '' @ error_message e))
     \<and> (\<forall>d e. trim jsonInput \<noteq> [] \<and> JSON_parse jsonInput = Inr d \<and> validateN8nWorkflow d = Inl e
            \<longrightarrow> r = failure (''Invalid JSON format: '' @ error_message e))
     \<and> (\<forall>d v. trim jsonInput \<noteq> [] \<and> JSON_parse jsonInput = Inr d \<and> validateN8nWorkflow d = Inr v
            \<longrightarrow> r = v)
     \<and> (\<forall>m. r = failure m \<longrightarrow> errors r = [m] \<and> warnings r = [] \<and> securityIssues r = []
                \<and> \<not> isValid r)"
proof (cases "trim jsonInput = []")
  case True
  then show ?thesis by (simp add: analyzeJson_blank failure_fields)
next
  case False
  show ?thesis
  proof (cases "JSON_parse jsonInput")
    case (Inl e)
    with False show ?thesis by (simp add: analyzeJson_parse_error failure_fields)
  next
    case (Inr d)
    with False show ?thesis
      by (cases "validateN8nWorkflow d")
         (simp_all add: analyzeJson_validate_error analyzeJson_validated failure_fields)
  qed
qed

lemma blank_input_blank: "trim blank_input = []"
  by code_simp

lemma truncated_input_not_blank: "trim truncated_input \<noteq> []"
  by code_simp

lemma no_nodes_input_not_blank: "trim no_nodes_input \<noteq> []"
  by code_simp

lemma untyped_input_not_blank: "trim untyped_input \<noteq> []"
  by code_simp

lemma no_nodes_validate: "validateN8nWorkflow no_nodes_doc = Inl (cannot_read JUndefined ''filter'')"
  by code_simp

lemma untyped_validate: "validateN8nWorkflow untyped_doc = Inl (cannot_read JUndefined ''includes'')"
  by code_simp

theorem analyzeJson_returns_report_witness:
  "result (analyzeJson reject_all blank_input initial_state)
     = Some (failure ''Please provide JSON input'')
   \<and> result (analyzeJson reject_all truncated_input initial_state)
     = Some (failure ''Invalid JSON format: Unexpected end of JSON input'')
   \<and> result (analyzeJson (\<lambda>s. Inr no_nodes_doc) no_nodes_input initial_state)
     = Some (failure (''Invalid JSON format: '' @ error_message (cannot_read JUndefined ''filter'')))
   \<and> result (analyzeJson (\<lambda>s. Inr demo_doc) demo_input initial_state) = Some demo_report"
proof -
  from analyzeJson_returns_report [of reject_all blank_input initial_state]
  have a: "result (analyzeJson reject_all blank_input initial_state)
             = Some (failure ''Please provide JSON input'')"
    using blank_input_blank by blast
  from analyzeJson_returns_report [of reject_all truncated_input initial_state]
  obtain r where r: "result (analyzeJson reject_all truncated_input initial_state) = Some r"
    "\<forall>e. trim truncated_input \<noteq> [] \<and> reject_all truncated_input = Inl e
         \<longrightarrow> r = failure (''Invalid JSON format: '' @ error_message e)"
    by blast
  have "reject_all truncated_input = Inl (SyntaxError ''Unexpected end of JSON input'')"
    by (simp add: reject_all_def)
  with r truncated_input_not_blank
  have b: "result (analyzeJson reject_all truncated_input initial_state)
             = Some (failure ''Invalid JSON format: Unexpected end of JSON input'')"
    by fastforce
  from analyzeJson_returns_report [of "\<lambda>s. Inr no_nodes_doc" no_nodes_input initial_state]
  obtain r' where r': "result (analyzeJson (\<lambda>s. Inr no_nodes_doc) no_nodes_input initial_state) = Some r'"
    "\<forall>d e. trim no_nodes_input \<noteq> [] \<and> Inr no_nodes_doc = (Inr d :: js_error + jsval)
               \<and> validateN8nWorkflow d = Inl e
         \<longrightarrow> r' = failure (''Invalid JSON format: '' @ error_message e)"
    by blast
  with no_nodes_input_not_blank no_nodes_validate
  have c: "result (analyzeJson (\<lambda>s. Inr no_nodes_doc) no_nodes_input initial_state)
     = Some (failure (''Invalid JSON format: '' @ error_message (cannot_read JUndefined ''filter'')))"
    by blast
  from analyzeJson_returns_report [of "\<lambda>s. Inr demo_doc" demo_input initial_state]
  obtain r'' where r'': "result (analyzeJson (\<lambda>s. Inr demo_doc) demo_input initial_state) = Some r''"
    "\<forall>d v. trim demo_input \<noteq> [] \<and> Inr demo_doc = (Inr d :: js_error + jsval)
               \<and> validateN8nWorkflow d = Inr v \<longrightarrow> r'' = v"
    by blast
  with demo_input_not_blank demo_validate
  have d: "result (analyzeJson (\<lambda>s. Inr demo_doc) demo_input initial_state) = Some demo_report"
    by blast
  from a b c d show ?thesis by blast
qed

subsection \<open>Documents the validator cannot finish\<close>


text \<open>
  C4. The validator pushes \<^verbatim>\<open>Missing or invalid 'nodes' array\<close> and then calls
  \<^verbatim>\<open>data.nodes.filter\<close> without a guard: for every workflow-like document whose
  \<^verbatim>\<open>nodes\<close> is not an array the call throws, and the report that \<open>analyzeJson\<close>
  stores holds the caught exception's message instead of the errors that were pushed.
\<close>

theorem missing_nodes_array_throws:
  assumes "trim jsonInput \<noteq> []" "JSON_parse jsonInput = Inr d"
    "truthy (isN8nWorkflow_value d)" "\<not> isArray (read_prop d ''nodes'')"
  shows "\<exists>e. validateN8nWorkflow d = Inl e
            \<and> result (analyzeJson JSON_parse jsonInput st)
                = Some (failure (''Invalid JSON format: '' @ error_message e))
            \<and> errors (failure (''Invalid JSON format: '' @ error_message e))
                \<noteq> [''Missing or invalid 'nodes' array'']
            \<and> ''Missing or invalid 'nodes' array''
                \<notin> set (errors (failure (''Invalid JSON format: '' @ error_message e)))
            \<and> ''Missing or invalid 'connections' object''
                \<notin> set (errors (failure (''Invalid JSON format: '' @ error_message e)))"
proof -
  from validate_throws_without_nodes_array [OF assms(3,4)] obtain e where
    e: "validateN8nWorkflow d = Inl e" by blast
  from analyzeJson_validate_error [of jsonInput JSON_parse d e st, OF assms(1,2) e]
  have "result (analyzeJson JSON_parse jsonInput st)
          = Some (failure (''Invalid JSON format: '' @ error_message e))" .
  with e show ?thesis by (simp add: failure_fields)
qed

theorem missing_nodes_array_throws_witness:
  "validateN8nWorkflow no_nodes_doc = Inl (cannot_read JUndefined ''filter'')
   \<and> result (analyzeJson (\<lambda>s. Inr no_nodes_doc) no_nodes_input initial_state)
       = Some (failure (''Invalid JSON format: '' @ error_message (cannot_read JUndefined ''filter'')))
   \<and> ''Missing or invalid 'nodes' array''
       \<notin> set (errors (failure (''Invalid JSON format: '' @ error_message (cannot_read JUndefined ''filter''))))"
proof -
  have wf: "truthy (isN8nWorkflow_value no_nodes_doc)" by code_simp
  have na: "\<not> isArray (read_prop no_nodes_doc ''nodes'')" by code_simp
  from missing_nodes_array_throws [of no_nodes_input "\<lambda>s. Inr no_nodes_doc" no_nodes_doc initial_state,
      OF no_nodes_input_not_blank refl wf na]
  show ?thesis by (simp add: no_nodes_validate)
qed

text \<open>
  C5. For a node whose \<^verbatim>\<open>type\<close> is absent, \<^verbatim>\<open>null\<close>, \<^verbatim>\<open>false\<close> or 0 the callback
  pushes the missing-type error and then calls \<^verbatim>\<open>node.type.includes\<close>, which throws:
  the validator does not return, and the stored report holds the exception's message
  and none of the accumulated messages.
\<close>

theorem untyped_node_throws:
  assumes "trim jsonInput \<noteq> []" "JSON_parse jsonInput = Inr d"
    "read_prop d ''nodes'' = JArr ns" "j < length ns"
    "\<not> truthy (read_prop (ns ! j) ''type'')" "read_prop (ns ! j) ''type'' \<noteq> JStr []"
  shows "\<exists>e. validateN8nWorkflow d = Inl e
            \<and> result (analyzeJson JSON_parse jsonInput st)
                = Some (failure (''Invalid JSON format: '' @ error_message e))
            \<and> (\<forall>shown. missing_type_error shown
                   \<notin> set (errors (failure (''Invalid JSON format: '' @ error_message e))))"
proof -
  from assms(5,6) have "\<forall>s. read_prop (ns ! j) ''type'' \<noteq> JStr s"
    "\<forall>xs. read_prop (ns ! j) ''type'' \<noteq> JArr xs"
    by (cases "read_prop (ns ! j) ''type''"; simp)+
  from validate_throws_on_untyped_node [OF assms(3,4) this] obtain e where
    e: "validateN8nWorkflow d = Inl e" by blast
  from analyzeJson_validate_error [of jsonInput JSON_parse d e st, OF assms(1,2) e]
  have "result (analyzeJson JSON_parse jsonInput st)
          = Some (failure (''Invalid JSON format: '' @ error_message e))" .
  with e show ?thesis by (simp add: failure_fields missing_type_error_def)
qed

theorem untyped_node_throws_witness:
  "validateN8nWorkflow untyped_doc = Inl (cannot_read JUndefined ''includes'')
   \<and> result (analyzeJson (\<lambda>s. Inr untyped_doc) untyped_input initial_state)
       = Some (failure (''Invalid JSON format: '' @ error_message (cannot_read JUndefined ''includes'')))
   \<and> missing_type_error ''1''
       \<notin> set (errors (failure (''Invalid JSON format: '' @ error_message (cannot_read JUndefined ''includes''))))"
proof -
  have ns: "read_prop untyped_doc ''nodes'' = JArr [JObj [(''id'', JStr ''1'')]]" by code_simp
  have ty: "\<not> truthy (read_prop ([JObj [(''id'', JStr ''1'')]] ! 0) ''type'')"
    "read_prop ([JObj [(''id'', JStr ''1'')]] ! 0) ''type'' \<noteq> JStr []" by simp_all
  from untyped_node_throws [of untyped_input "\<lambda>s. Inr untyped_doc" untyped_doc _ 0 initial_state,
      OF untyped_input_not_blank refl ns _ ty]
  show ?thesis by (simp add: untyped_validate)
qed

subsection \<open>Sticky notes\<close>



subsection \<open>Classification of the parsed value\<close>

lemma read_prop_absent:
  "\<not> has_member v k \<Longrightarrow> k \<noteq> ''length'' \<Longrightarrow> read_prop v k = JUndefined"
  by (cases v) (auto simp: has_member_def map_of_eq_None_iff [THEN iffD2] split: option.splits)

lemma isN8nWorkflow_value_truthy:
  "truthy (isN8nWorkflow_value d) \<longleftrightarrow> truthy d \<and> has_truthy_workflow_attribute d"
  by (simp add: isN8nWorkflow_value_def and_js_def or_js_def has_truthy_workflow_attribute_def)

lemma truthy_attribute_object:
  "has_truthy_workflow_attribute d \<Longrightarrow> \<exists>kvs. d = JObj kvs"
  by (cases d) (simp_all add: has_truthy_workflow_attribute_def)

lemma truthy_attribute_exposed:
  assumes "has_truthy_workflow_attribute d"
  shows "exposes_workflow_attribute d"
proof (rule ccontr)
  assume "\<not> exposes_workflow_attribute d"
  then have "read_prop d ''nodes'' = JUndefined" "read_prop d ''connections'' = JUndefined"
    "read_prop (read_prop d ''meta'') ''instanceId'' = JUndefined" "read_prop d ''name'' = JUndefined"
    by (simp_all add: exposes_workflow_attribute_def read_prop_absent)
  with assms show False by (simp add: has_truthy_workflow_attribute_def)
qed

text \<open>
  The claim C3 as stated fails: a document whose only member is \<^verbatim>\<open>name\<close> with the
  empty string exposes a \<^verbatim>\<open>name\<close> attribute and is classified as not a workflow.
\<close>

theorem empty_name_not_workflow:
  "exposes_workflow_attribute empty_name_doc
   \<and> \<not> truthy (isN8nWorkflow_value empty_name_doc)
   \<and> validateN8nWorkflow empty_name_doc = Inr not_a_workflow
   \<and> \<not> isN8nWorkflow not_a_workflow"
  by code_simp

text \<open>
  C3, amended. The parsed value is classified workflow-like if and only if it is an
  object and at least one of \<^verbatim>\<open>nodes\<close>, \<^verbatim>\<open>connections\<close>, \<^verbatim>\<open>meta.instanceId\<close> and
  \<^verbatim>\<open>name\<close> has a truthy value (not \<^verbatim>\<open>null\<close>, \<^verbatim>\<open>false\<close>, 0 or the empty string).
  When it is not, and in particular when none of the four is present, the validator
  returns at once the report with \<open>isN8nWorkflow\<close> false, one error, no warning,
  information or issue, and no summary. A report the validator returns carries the
  classification.
\<close>

theorem workflow_like_iff_truthy_attribute:
  "(truthy (isN8nWorkflow_value d) \<longleftrightarrow> (\<exists>kvs. d = JObj kvs) \<and> has_truthy_workflow_attribute d)
   \<and> (\<not> truthy (isN8nWorkflow_value d) \<longrightarrow> validateN8nWorkflow d = Inr not_a_workflow)
   \<and> (\<not> exposes_workflow_attribute d \<longrightarrow> validateN8nWorkflow d = Inr not_a_workflow)
   \<and> (\<forall>r. validateN8nWorkflow d = Inr r \<longrightarrow> isN8nWorkflow r = truthy (isN8nWorkflow_value d))
   \<and> \<not> isN8nWorkflow not_a_workflow \<and> \<not> isValid not_a_workflow
   \<and> length (errors not_a_workflow) = 1 \<and> warnings not_a_workflow = []
   \<and> info not_a_workflow = [] \<and> securityIssues not_a_workflow = []
   \<and> workflowInfo not_a_workflow = None"
proof -
  have a: "truthy (isN8nWorkflow_value d) \<longleftrightarrow> (\<exists>kvs. d = JObj kvs) \<and> has_truthy_workflow_attribute d"
    using truthy_attribute_object [of d] by (auto simp: isN8nWorkflow_value_truthy)
  have b: "\<not> truthy (isN8nWorkflow_value d) \<Longrightarrow> validateN8nWorkflow d = Inr not_a_workflow"
    by (simp add: validate_not_workflow not_a_workflow_def)
  have c: "\<not> exposes_workflow_attribute d \<Longrightarrow> validateN8nWorkflow d = Inr not_a_workflow"
    using a b truthy_attribute_exposed by blast
  have d: "\<And>r. validateN8nWorkflow d = Inr r \<Longrightarrow> isN8nWorkflow r = truthy (isN8nWorkflow_value d)"
  proof -
    fix r assume r: "validateN8nWorkflow d = Inr r"
    show "isN8nWorkflow r = truthy (isN8nWorkflow_value d)"
    proof (cases "truthy (isN8nWorkflow_value d)")
      case True
      with validate_Inr_workflow [OF r] show ?thesis by auto
    next
      case False
      with b r show ?thesis by (simp add: not_a_workflow_def failure_fields)
    qed
  qed
  from a b c d show ?thesis by (simp add: not_a_workflow_def failure_fields)
qed

theorem workflow_like_iff_truthy_attribute_witness:
  "truthy (isN8nWorkflow_value demo_doc) \<and> has_truthy_workflow_attribute demo_doc
   \<and> isN8nWorkflow demo_report
   \<and> \<not> truthy (isN8nWorkflow_value unrelated_doc) \<and> \<not> exposes_workflow_attribute unrelated_doc
   \<and> validateN8nWorkflow unrelated_doc = Inr not_a_workflow
   \<and> validateN8nWorkflow empty_name_doc = Inr not_a_workflow"
proof -
  have t: "has_truthy_workflow_attribute demo_doc" by code_simp
  have o: "\<exists>kvs. demo_doc = JObj kvs" by (simp add: demo_doc_def)
  have u: "\<not> exposes_workflow_attribute unrelated_doc" by code_simp
  have e: "\<not> has_truthy_workflow_attribute empty_name_doc" by code_simp
  from workflow_like_iff_truthy_attribute [of demo_doc] t o demo_validate
  have 1: "truthy (isN8nWorkflow_value demo_doc)" "isN8nWorkflow demo_report" by auto
  from workflow_like_iff_truthy_attribute [of unrelated_doc] u
  have 2: "validateN8nWorkflow unrelated_doc = Inr not_a_workflow" by blast
  from workflow_like_iff_truthy_attribute [of unrelated_doc] 2
  have 3: "\<not> truthy (isN8nWorkflow_value unrelated_doc)" by auto
  from workflow_like_iff_truthy_attribute [of empty_name_doc] e
  have 4: "validateN8nWorkflow empty_name_doc = Inr not_a_workflow" by blast
  from 1 2 3 4 t u show ?thesis by simp
qed

subsection \<open>The connection count\<close>

lemma slot_count: "(if isArray oc then length (elements oc) else 0) = edges_in_slot oc"
  by (cases oc) simp_all

lemma slots_count:
  "(if isArray outputs
    then sum_list (map (\<lambda>oc. if isArray oc then length (elements oc) else 0) (elements outputs))
    else 0) = edges_in_slots outputs"
  by (cases outputs) (simp_all add: slot_count)

lemma entries_index_length: "length (entries (JStr s)) = length s"
  by simp

lemma values_js_members:
  "typeof_object v \<Longrightarrow> values_js v = members v"
  by (cases v) (simp_all add: values_js_def)

lemma values_js_string: "x \<in> set (values_js (JStr s)) \<Longrightarrow> \<exists>c. x = JStr [c]"
  by (auto simp: values_js_def dest!: set_zip_rightD)

lemma inner_count:
  "(if truthy nc \<and> typeof_object nc
    then sum_list (map edges_in_slots (values_js nc)) else 0)
   = sum_list (map edges_in_slots (members nc))"
  by (cases nc) (simp_all add: values_js_def)

lemma countConnections_unfold:
  "countConnections conns =
     (if truthy conns
      then sum_list (map (\<lambda>nc. sum_list (map edges_in_slots (members nc))) (values_js conns))
      else 0)"
  unfolding countConnections_def slots_count inner_count ..

lemma countConnections_tolerant: "countConnections conns = edges_in_containers conns"
proof (cases conns)
  case (JStr s)
  have "\<And>x. x \<in> set (values_js (JStr s)) \<Longrightarrow> sum_list (map edges_in_slots (members x)) = 0"
    by (auto dest: values_js_string)
  then have "sum_list (map (\<lambda>nc. sum_list (map edges_in_slots (members nc))) (values_js (JStr s))) = 0"
    by (simp add: sum_list_eq_0_iff)
  with JStr show ?thesis
    by (simp add: countConnections_unfold edges_in_containers_def)
qed (simp_all add: countConnections_unfold edges_in_containers_def values_js_def)

lemma edges_in_categories_members:
  "\<not> isArray v \<Longrightarrow> sum_list (map edges_in_slots (members v)) = edges_in_categories v"
  by (cases v) (simp_all add: comp_def case_prod_unfold)

lemma edges_in_containers_spec:
  assumes "\<not> isArray conns" "\<forall>v \<in> set (members conns). \<not> isArray v"
  shows "edges_in_containers conns = edges_in_map conns"
proof (cases conns)
  case (JObj kvs)
  with assms(2) have "\<And>kv. kv \<in> set kvs \<Longrightarrow> \<not> isArray (snd kv)" by auto
  then have "map (\<lambda>kv. sum_list (map edges_in_slots (members (snd kv)))) kvs
           = map (\<lambda>kv. edges_in_categories (snd kv)) kvs"
    by (intro map_cong refl edges_in_categories_members) auto
  then have "sum_list (map (\<lambda>kv. sum_list (map edges_in_slots (members (snd kv)))) kvs)
           = sum_list (map (\<lambda>kv. edges_in_categories (snd kv)) kvs)"
    by (rule arg_cong)
  moreover have "edges_in_containers conns
           = sum_list (map (\<lambda>kv. sum_list (map edges_in_slots (members (snd kv)))) kvs)"
    using JObj by (simp add: edges_in_containers_def comp_def)
  moreover have "edges_in_map conns = sum_list (map (\<lambda>kv. edges_in_categories (snd kv)) kvs)"
    using JObj by (simp add: case_prod_unfold)
  ultimately show ?thesis by simp
qed (use assms in \<open>simp_all add: edges_in_containers_def\<close>)

text \<open>
  The claim C8 as stated fails: under the source node \<^verbatim>\<open>A\<close> stands an array where the
  mapping of categories is expected, so the branch should contribute 0, and the code
  counts the edge inside it.
\<close>

theorem array_branch_counted:
  "edges_in_map array_branch = 0 \<and> countConnections array_branch = 1
   \<and> validateN8nWorkflow array_branch_doc = Inr array_branch_report
   \<and> map_option connections (workflowInfo array_branch_report) = Some 1"
  by code_simp

text \<open>
  C8, amended. The connection count is the sum of the lengths of the edge arrays found
  at the third level, where at the first two levels an object and an array are both
  walked (the test there is \<^verbatim>\<open>typeof ... === "object"\<close>); when neither the connection
  map nor one of its values is an array this is the count of the specification, in
  which every value of another shape contributes 0. Absent connections count 0, no
  exception can arise, and the count is the one in the report's summary.
\<close>

theorem connection_count_walks_containers:
  "countConnections conns = edges_in_containers conns
   \<and> (\<not> isArray conns \<and> (\<forall>v \<in> set (members conns). \<not> isArray v)
        \<longrightarrow> countConnections conns = edges_in_map conns)
   \<and> countConnections JUndefined = 0
   \<and> (\<forall>d r. read_prop d ''connections'' = conns \<and> validateN8nWorkflow d = Inr r
               \<and> truthy (isN8nWorkflow_value d)
          \<longrightarrow> map_option connections (workflowInfo r) = Some (countConnections conns))"
proof -
  have a: "countConnections conns = edges_in_containers conns"
    by (rule countConnections_tolerant)
  have b: "\<not> isArray conns \<and> (\<forall>v \<in> set (members conns). \<not> isArray v)
        \<longrightarrow> countConnections conns = edges_in_map conns"
    using edges_in_containers_spec [of conns] a by simp
  have c: "countConnections JUndefined = 0"
    by (simp add: countConnections_def)
  have d: "\<And>d r. read_prop d ''connections'' = conns \<Longrightarrow> validateN8nWorkflow d = Inr r
               \<Longrightarrow> truthy (isN8nWorkflow_value d)
          \<Longrightarrow> map_option connections (workflowInfo r) = Some (countConnections conns)"
    using validate_Inr_workflow by fastforce
  from a b c d show ?thesis by blast
qed

theorem connection_count_walks_containers_witness:
  "countConnections wired_connections = 3 \<and> edges_in_map wired_connections = 3
   \<and> edges_in_containers wired_connections = 3
   \<and> edges_in_containers array_branch = 1
   \<and> map_option connections (workflowInfo array_branch_report) = Some (countConnections array_branch)"
proof -
  have m: "\<not> isArray wired_connections \<and> (\<forall>v \<in> set (members wired_connections). \<not> isArray v)"
    by code_simp
  have s: "edges_in_map wired_connections = 3" by code_simp
  have t: "edges_in_containers array_branch = 1" by code_simp
  have wf: "truthy (isN8nWorkflow_value array_branch_doc)" by code_simp
  have rc: "read_prop array_branch_doc ''connections'' = array_branch" by code_simp
  have v: "validateN8nWorkflow array_branch_doc = Inr array_branch_report" by code_simp
  from connection_count_walks_containers [of wired_connections] m s
  have 1: "countConnections wired_connections = 3" "edges_in_containers wired_connections = 3"
    by simp_all
  from connection_count_walks_containers [of array_branch] rc v wf
  have 2: "map_option connections (workflowInfo array_branch_report) = Some (countConnections array_branch)"
    by blast
  from 1 2 s t show ?thesis by simp
qed

subsection \<open>The count of secure nodes\<close>

lemma length_filter_split:
  assumes "\<And>x. x \<in> set xs \<Longrightarrow> A x \<longleftrightarrow> B x \<or> C x" "\<And>x. x \<in> set xs \<Longrightarrow> \<not> (B x \<and> C x)"
  shows "length (filter A xs) = length (filter B xs) + length (filter C xs)"
  using assms by (induction xs) auto

lemma nodesWithIssues_iff:
  "v \<in> nodesWithIssues issues \<longleftrightarrow> truthy v \<and> (\<exists>f \<in> set issues. nodeId f = v)"
  by (auto simp: nodesWithIssues_def)

lemma idless_validate: "validateN8nWorkflow idless_doc = Inr idless_report"
  by code_simp

text \<open>
  C9. What \<^verbatim>\<open>calculateSecureNodes\<close> returns (and \<^verbatim>\<open>generateReportHTML\<close> computes alike)
  is the number of nodes that are not annotations and have no issue, plus the number
  of those that do have an issue and whose \<^verbatim>\<open>id\<close> is missing or falsy:
  \<^verbatim>\<open>filter(Boolean)\<close> drops the \<^verbatim>\<open>nodeId\<close> of their issues from the set. The
  comparison of ids is by value, as it is in JavaScript for every id that is not an
  object or an array.
\<close>

theorem secure_count_skips_falsy_ids:
  assumes "read_prop d ''nodes'' = JArr ns" "calculateSecureNodes d issues = Inr n"
  shows "n = zero_findings_count ns issues
             + length (filter (\<lambda>node. \<not> is_annotation node \<and> \<not> truthy (read_prop node ''id'')
                                 \<and> (\<exists>f \<in> set issues. associated f node)) ns)
         \<and> secureNodesCount d issues = Inr n"
proof -
  from assms obtain actual where
    act: "actualNodes ''workflowData.nodes'' (JArr ns) = Inr actual" and
    n: "n = length (filter (\<lambda>node. read_prop node ''id'' \<notin> nodesWithIssues issues) actual)"
    by (auto simp: calculateSecureNodes_def bindE_Inr_iff)
  from actualNodes_Inr [OF act]
  have actual: "actual = filter (\<lambda>node. \<not> is_annotation node) ns"
    by (simp add: is_annotation_def)
  have "n = length (filter (\<lambda>node. \<not> is_annotation node
                              \<and> read_prop node ''id'' \<notin> nodesWithIssues issues) ns)"
    unfolding n actual filter_filter by (rule arg_cong [where f = length], rule filter_cong) auto
  also have "\<dots> = length (filter (\<lambda>node. \<not> is_annotation node
                                  \<and> \<not> (\<exists>f \<in> set issues. associated f node)) ns)
             + length (filter (\<lambda>node. \<not> is_annotation node \<and> \<not> truthy (read_prop node ''id'')
                                 \<and> (\<exists>f \<in> set issues. associated f node)) ns)"
    by (rule length_filter_split) (auto simp: nodesWithIssues_iff associated_def)
  finally have a: "n = zero_findings_count ns issues
             + length (filter (\<lambda>node. \<not> is_annotation node \<and> \<not> truthy (read_prop node ''id'')
                                 \<and> (\<exists>f \<in> set issues. associated f node)) ns)"
    by (simp add: zero_findings_count_def)
  have b: "secureNodesCount d issues = Inr n"
    using assms(1) act n by (simp add: secureNodesCount_def)
  from a b show ?thesis by simp
qed

theorem secure_count_skips_falsy_ids_witness:
  "validateN8nWorkflow idless_doc = Inr idless_report
   \<and> securityIssues idless_report = [idless_issue]
   \<and> associated idless_issue idless_node
   \<and> calculateSecureNodes idless_doc (securityIssues idless_report) = Inr 1
   \<and> secureNodesCount idless_doc (securityIssues idless_report) = Inr 1
   \<and> zero_findings_count [idless_node] (securityIssues idless_report) = 0"
proof -
  have ns: "read_prop idless_doc ''nodes'' = JArr [idless_node]" by code_simp
  have c: "calculateSecureNodes idless_doc [idless_issue] = Inr 1" by code_simp
  have s: "securityIssues idless_report = [idless_issue]" by (simp add: idless_report_def)
  have as: "associated idless_issue idless_node" by code_simp
  have extra: "length (filter (\<lambda>node. \<not> is_annotation node \<and> \<not> truthy (read_prop node ''id'')
                                 \<and> (\<exists>f \<in> set [idless_issue]. associated f node)) [idless_node]) = 1"
    by code_simp
  from secure_count_skips_falsy_ids [OF ns c] extra
  have "zero_findings_count [idless_node] [idless_issue] = 0"
    "secureNodesCount idless_doc [idless_issue] = Inr 1"
    by simp_all
  with c s as idless_validate show ?thesis by simp
qed

subsection \<open>The issue types of the blocks\<close>

lemma filter_type_const:
  assumes "\<And>f. f \<in> set xs \<Longrightarrow> type f = T0"
  shows "filter (\<lambda>f. type f = T) xs = (if T = T0 then xs else [])"
  using assms by (auto simp: filter_empty_conv filter_id_conv)

lemma filter_type_promptInjection:
  "filter (\<lambda>f. type f = T) (promptInjection node nm)
     = (if T = ''LLM-01: Prompt Injection'' then promptInjection node nm else [])"
  by (cases "or_js (or_js (read_prop (read_prop node ''parameters'') ''prompt'')
                         (read_prop (read_prop node ''parameters'') ''message'')) (JStr [])")
     (simp_all add: promptInjection_def Let_def issue_def cong: if_cong)

lemma filter_type_insecureOutputHandling:
  "filter (\<lambda>f. type f = T) (insecureOutputHandling node nm)
     = (if T = ''LLM-02: Insecure Output Handling'' then insecureOutputHandling node nm else [])"
  by (auto simp: insecureOutputHandling_def issue_def Let_def)

lemma filter_type_trainingDataPoisoning:
  "filter (\<lambda>f. type f = T) (trainingDataPoisoning node nm)
     = (if T = ''LLM-03: Training Data Poisoning'' then trainingDataPoisoning node nm else [])"
  by (auto simp: trainingDataPoisoning_def issue_def Let_def)

lemma filter_type_modelDenialOfService:
  "filter (\<lambda>f. type f = T) (modelDenialOfService node nm)
     = (if T = ''LLM-04: Model Denial of Service'' then modelDenialOfService node nm else [])"
  by (auto simp: modelDenialOfService_def issue_def Let_def)

lemma sensitive_issue_fields:
  "f \<in> set (checkForSensitiveData node nm v)
     \<Longrightarrow> type f = ''LLM-06: Sensitive Information Disclosure'' \<and> severity f = high"
  by (induction node nm v rule: checkForSensitiveData.induct)
     (auto simp: sensitiveIssue_def issue_def)

lemma filter_type_sensitive:
  "filter (\<lambda>f. type f = T) (sensitiveInformationDisclosure node nm)
     = (if T = ''LLM-06: Sensitive Information Disclosure''
        then sensitiveInformationDisclosure node nm else [])"
  using sensitive_issue_fields [of _ node nm "read_prop node ''parameters''"]
  by (auto simp: sensitiveInformationDisclosure_def filter_empty_conv filter_id_conv)

lemma filter_type_insecurePluginDesign:
  "filter (\<lambda>f. type f = T) (insecurePluginDesign node nm)
     = (if T = ''LLM-07: Insecure Plugin Design'' then insecurePluginDesign node nm else [])"
  by (auto simp: insecurePluginDesign_def issue_def Let_def)

lemma filter_type_excessiveAgency:
  "excessiveAgency node nm = Inr xs \<Longrightarrow>
   filter (\<lambda>f. type f = T) xs = (if T = ''LLM-08: Excessive Agency'' then xs else [])"
  by (auto simp: excessiveAgency_def issue_def Let_def bindE_Inr_iff split: if_splits)

lemma filter_type_overreliance:
  "filter (\<lambda>f. type f = T) (overreliance node nm)
     = (if T = ''LLM-09: Overreliance'' then overreliance node nm else [])"
  by (auto simp: overreliance_def issue_def Let_def)

lemma filter_type_modelTheft:
  "filter (\<lambda>f. type f = T) (modelTheft node nm)
     = (if T = ''LLM-10: Model Theft'' then modelTheft node nm else [])"
  by (auto simp: modelTheft_def issue_def Let_def)

lemma filter_type_insecurePlanning:
  "filter (\<lambda>f. type f = T) (insecurePlanning node nm)
     = (if T = ''Agentic AI: Insecure Planning'' then insecurePlanning node nm else [])"
  by (auto simp: insecurePlanning_def issue_def Let_def)

lemma filter_type_memoryPoisoning:
  "filter (\<lambda>f. type f = T) (memoryPoisoning node nm)
     = (if T = ''Agentic AI: Memory Poisoning'' then memoryPoisoning node nm else [])"
  by (auto simp: memoryPoisoning_def issue_def Let_def)

lemma credentialEntries_type:
  "credentialEntries node nm es = Inr xs \<Longrightarrow> f \<in> set xs \<Longrightarrow> type f = ''Credential Reference''"
proof (induction es arbitrary: xs)
  case Nil
  then show ?case by simp
next
  case (Cons e es)
  obtain credType c where e: "e = (credType, c)" by (cases e)
  from Cons.prems(1) e obtain cid more where
    "credentialEntries node nm es = Inr more"
    "xs = (if truthy cid
           then [issue low ''Credential Reference''
                   (''Node references credential of type '' @ apostrophe @ credType @ apostrophe
                    @ ''. Ensure credentials are properly secured.'') node nm]
           else []) @ more"
    by (auto simp: bindE_Inr_iff)
  with Cons.IH Cons.prems(2) show ?case
    by (auto simp: issue_def split: if_splits)
qed

lemma filter_type_credentialReference:
  assumes "credentialReference node nm = Inr xs"
  shows "filter (\<lambda>f. type f = T) xs = (if T = ''Credential Reference'' then xs else [])"
proof -
  have "\<And>f. f \<in> set xs \<Longrightarrow> type f = ''Credential Reference''"
    using assms credentialEntries_type
    by (fastforce simp: credentialReference_def split: if_splits)
  then show ?thesis by (auto simp: filter_empty_conv filter_id_conv)
qed

lemma filter_type_codeExecutionRisk:
  "filter (\<lambda>f. type f = T) (codeExecutionRisk node nm)
     = (if T = ''Code Execution Risk'' then codeExecutionRisk node nm else [])"
  by (auto simp: codeExecutionRisk_def issue_def)

lemma filter_type_externalHttpRequest:
  "filter (\<lambda>f. type f = T) (externalHttpRequest node nm)
     = (if T = ''External HTTP Request'' then externalHttpRequest node nm else [])"
  by (cases "read_prop (read_prop node ''parameters'') ''url''")
     (simp_all add: externalHttpRequest_def issue_def cong: if_cong)

lemma filter_type_webhookExposure:
  "filter (\<lambda>f. type f = T) (webhookExposure node nm)
     = (if T = ''Webhook Exposure'' then webhookExposure node nm else [])"
  by (auto simp: webhookExposure_def issue_def Let_def)

lemma filter_type_socialMediaIntegrationRisk:
  "filter (\<lambda>f. type f = T) (socialMediaIntegrationRisk node nm)
     = (if T = ''Social Media Integration Risk'' then socialMediaIntegrationRisk node nm else [])"
  by (auto simp: socialMediaIntegrationRisk_def issue_def Let_def)

lemma filter_type_databaseSecurityRisk:
  "filter (\<lambda>f. type f = T) (databaseSecurityRisk node nm)
     = (if T = ''Database Security Risk'' then databaseSecurityRisk node nm else [])"
  by (auto simp: databaseSecurityRisk_def issue_def Let_def)

lemma filter_type_fileSystemAccessRisk:
  "filter (\<lambda>f. type f = T) (fileSystemAccessRisk node nm)
     = (if T = ''File System Access Risk'' then fileSystemAccessRisk node nm else [])"
  by (auto simp: fileSystemAccessRisk_def issue_def Let_def)

lemmas filter_type_blocks =
  filter_type_promptInjection filter_type_insecureOutputHandling filter_type_trainingDataPoisoning
  filter_type_modelDenialOfService filter_type_sensitive filter_type_insecurePluginDesign
  filter_type_overreliance filter_type_modelTheft filter_type_insecurePlanning
  filter_type_memoryPoisoning filter_type_codeExecutionRisk filter_type_externalHttpRequest
  filter_type_webhookExposure filter_type_socialMediaIntegrationRisk
  filter_type_databaseSecurityRisk filter_type_fileSystemAccessRisk

lemma checkNodeSecurity_blocks:
  assumes "checkNodeSecurity node issues = Inr out" "\<not> is_annotation node"
  shows "\<exists>agency creds.
           excessiveAgency node (nodeName_of node) = Inr agency
           \<and> credentialReference node (nodeName_of node) = Inr creds
           \<and> out = issues
                  @ promptInjection node (nodeName_of node)
                  @ insecureOutputHandling node (nodeName_of node)
                  @ trainingDataPoisoning node (nodeName_of node)
                  @ modelDenialOfService node (nodeName_of node)
                  @ sensitiveInformationDisclosure node (nodeName_of node)
                  @ insecurePluginDesign node (nodeName_of node)
                  @ agency
                  @ overreliance node (nodeName_of node)
                  @ modelTheft node (nodeName_of node)
                  @ insecurePlanning node (nodeName_of node)
                  @ memoryPoisoning node (nodeName_of node)
                  @ creds
                  @ codeExecutionRisk node (nodeName_of node)
                  @ externalHttpRequest node (nodeName_of node)
                  @ webhookExposure node (nodeName_of node)
                  @ socialMediaIntegrationRisk node (nodeName_of node)
                  @ databaseSecurityRisk node (nodeName_of node)
                  @ fileSystemAccessRisk node (nodeName_of node)"
proof -
  from assms(1) obtain nm sticky where
    nm: "get node ''name'' = Inr nm" and
    st: "includes_js ''node.type'' (read_prop node ''type'') ''stickyNote'' = Inr sticky"
    unfolding checkNodeSecurity_def Let_def by (auto simp: bindE_Inr_iff)
  from nm have nm': "nm = read_prop node ''name''" by (auto simp: get_def split: if_splits)
  from includes_js_incl [OF st] assms(2) have ns: "\<not> sticky" by (simp add: is_annotation_def)
  from assms(1) nm st ns show ?thesis
    unfolding checkNodeSecurity_def Let_def nodeName_of_def nm'
    by (auto simp: bindE_Inr_iff)
qed

lemma checkNodeSecurity_annotation:
  assumes "checkNodeSecurity node issues = Inr out" "is_annotation node"
  shows "out = issues"
proof -
  from assms(1) obtain nm sticky where
    nm: "get node ''name'' = Inr nm" and
    st: "includes_js ''node.type'' (read_prop node ''type'') ''stickyNote'' = Inr sticky"
    unfolding checkNodeSecurity_def Let_def by (auto simp: bindE_Inr_iff)
  from includes_js_incl [OF st] assms(2) have "sticky" by (simp add: is_annotation_def)
  with assms(1) nm st show ?thesis
    unfolding checkNodeSecurity_def Let_def by simp
qed

subsection \<open>Sensitive information disclosure\<close>

lemma concat_map_values:
  assumes "\<And>x. x \<in> set xs \<Longrightarrow> f x = map g (concat (map h (sv x)))"
  shows "concat (map f xs) = map g (concat (map h (concat (map sv xs))))"
  using assms by (induction xs) (simp_all add: map_concat)

lemma checkForSensitiveData_values:
  "checkForSensitiveData node nm v
     = map (sensitiveIssue node nm) (concat (map matching_kinds (string_values v)))"
proof (induction node nm v rule: checkForSensitiveData.induct)
  case (1 node nm obj)
  show ?case by (simp add: matching_kinds_def case_prod_unfold comp_def)
next
  case (2 node nm kvs)
  have "concat (map (\<lambda>kv. checkForSensitiveData node nm (snd kv)) kvs)
          = map (sensitiveIssue node nm)
              (concat (map matching_kinds (concat (map (\<lambda>kv. string_values (snd kv)) kvs))))"
    by (rule concat_map_values) (use 2 in \<open>auto simp: case_prod_unfold\<close>)
  then show ?case by (simp add: case_prod_unfold)
next
  case (3 node nm xs)
  have "concat (map (checkForSensitiveData node nm) xs)
          = map (sensitiveIssue node nm) (concat (map matching_kinds (concat (map string_values xs))))"
    by (rule concat_map_values) (use 3 in auto)
  then show ?case by simp
qed simp_all

lemma length_concat_kinds:
  "length (concat (map matching_kinds ss))
     = sum_list (map (\<lambda>s. length (filter (\<lambda>(p, kind). test p s) sensitivePatterns)) ss)"
  by (induction ss) (simp_all add: matching_kinds_def)

text \<open>
  The claim C6 as stated fails: the pattern \<^verbatim>\<open>/password/i\<close> occurs twice in the one
  string value of the node's parameters, no other pattern matches it, and one issue is
  pushed.
\<close>

theorem repeated_match_one_issue:
  "sum_list (map (\<lambda>(p, kind). match_starts p ''password password'') sensitivePatterns) = 2
   \<and> string_values (read_prop repeated_node ''parameters'') = [''password password'']
   \<and> sensitiveInformationDisclosure repeated_node (JStr ''1'')
       = [sensitiveIssue repeated_node (JStr ''1'') ''Password'']
   \<and> checkNodeSecurity repeated_node [] = Inr [sensitiveIssue repeated_node (JStr ''1'') ''Password'']"
  by code_simp

text \<open>
  C6, amended. When the node's \<^verbatim>\<open>parameters\<close> are truthy, the block scans every
  string value nested in them (not the keys), in order, and pushes one issue for each
  pattern of the fixed list that matches the string, however often it matches; all
  are of high severity and of the type LLM-06. In a run of \<open>checkNodeSecurity\<close> that
  returns for a node that is not an annotation, these are exactly the issues of that
  type it adds.
\<close>

theorem sensitive_scan_one_issue_per_pattern_per_string:
  "sensitiveInformationDisclosure node nm
     = (if truthy (read_prop node ''parameters'')
        then map (sensitiveIssue node nm)
               (concat (map matching_kinds (string_values (read_prop node ''parameters''))))
        else [])
   \<and> length (sensitiveInformationDisclosure node nm)
     = (if truthy (read_prop node ''parameters'')
        then sum_list (map (\<lambda>s. length (filter (\<lambda>(p, kind). test p s) sensitivePatterns))
                           (string_values (read_prop node ''parameters'')))
        else 0)
   \<and> (\<forall>kind. severity (sensitiveIssue node nm kind) = high
              \<and> type (sensitiveIssue node nm kind) = ''LLM-06: Sensitive Information Disclosure'')
   \<and> (\<forall>issues out. checkNodeSecurity node issues = Inr out \<and> \<not> is_annotation node \<longrightarrow>
          filter (\<lambda>f. type f = ''LLM-06: Sensitive Information Disclosure'') out
            = filter (\<lambda>f. type f = ''LLM-06: Sensitive Information Disclosure'') issues
              @ sensitiveInformationDisclosure node (nodeName_of node))"
proof -
  have a: "sensitiveInformationDisclosure node nm
     = (if truthy (read_prop node ''parameters'')
        then map (sensitiveIssue node nm)
               (concat (map matching_kinds (string_values (read_prop node ''parameters''))))
        else [])"
    by (simp add: sensitiveInformationDisclosure_def checkForSensitiveData_values)
  have b: "length (sensitiveInformationDisclosure node nm)
     = (if truthy (read_prop node ''parameters'')
        then sum_list (map (\<lambda>s. length (filter (\<lambda>(p, kind). test p s) sensitivePatterns))
                           (string_values (read_prop node ''parameters'')))
        else 0)"
    unfolding a by (simp add: length_concat_kinds)
  have c: "\<And>kind. severity (sensitiveIssue node nm kind) = high
              \<and> type (sensitiveIssue node nm kind) = ''LLM-06: Sensitive Information Disclosure''"
    by (simp add: sensitiveIssue_def issue_def)
  have d: "\<And>issues out. checkNodeSecurity node issues = Inr out \<Longrightarrow> \<not> is_annotation node \<Longrightarrow>
          filter (\<lambda>f. type f = ''LLM-06: Sensitive Information Disclosure'') out
            = filter (\<lambda>f. type f = ''LLM-06: Sensitive Information Disclosure'') issues
              @ sensitiveInformationDisclosure node (nodeName_of node)"
  proof -
    fix issues out
    assume "checkNodeSecurity node issues = Inr out" "\<not> is_annotation node"
    from checkNodeSecurity_blocks [OF this] obtain agency creds where
      ag: "excessiveAgency node (nodeName_of node) = Inr agency" and
      cr: "credentialReference node (nodeName_of node) = Inr creds" and
      out: "out = issues
                  @ promptInjection node (nodeName_of node)
                  @ insecureOutputHandling node (nodeName_of node)
                  @ trainingDataPoisoning node (nodeName_of node)
                  @ modelDenialOfService node (nodeName_of node)
                  @ sensitiveInformationDisclosure node (nodeName_of node)
                  @ insecurePluginDesign node (nodeName_of node)
                  @ agency
                  @ overreliance node (nodeName_of node)
                  @ modelTheft node (nodeName_of node)
                  @ insecurePlanning node (nodeName_of node)
                  @ memoryPoisoning node (nodeName_of node)
                  @ creds
                  @ codeExecutionRisk node (nodeName_of node)
                  @ externalHttpRequest node (nodeName_of node)
                  @ webhookExposure node (nodeName_of node)
                  @ socialMediaIntegrationRisk node (nodeName_of node)
                  @ databaseSecurityRisk node (nodeName_of node)
                  @ fileSystemAccessRisk node (nodeName_of node)"
      by blast
    show "filter (\<lambda>f. type f = ''LLM-06: Sensitive Information Disclosure'') out
            = filter (\<lambda>f. type f = ''LLM-06: Sensitive Information Disclosure'') issues
              @ sensitiveInformationDisclosure node (nodeName_of node)"
      unfolding out
      by (simp add: filter_type_blocks filter_type_excessiveAgency [OF ag]
            filter_type_credentialReference [OF cr])
  qed
  from a b c d show ?thesis by blast
qed

theorem sensitive_scan_one_issue_per_pattern_per_string_witness:
  "string_values (read_prop nested_node ''parameters'')
     = [''my api_key and token'', ''4111 1111 1111 1111'']
   \<and> matching_kinds ''my api_key and token'' = [''API Key'', ''Token'']
   \<and> matching_kinds ''4111 1111 1111 1111'' = [''Credit Card Number'']
   \<and> sensitiveInformationDisclosure nested_node (JStr ''2'')
       = map (sensitiveIssue nested_node (JStr ''2'')) [''API Key'', ''Token'', ''Credit Card Number'']
   \<and> length (sensitiveInformationDisclosure nested_node (JStr ''2'')) = 3
   \<and> length (sensitiveInformationDisclosure repeated_node (JStr ''1'')) = 1
   \<and> filter (\<lambda>f. type f = ''LLM-06: Sensitive Information Disclosure'')
         (map (sensitiveIssue nested_node (JStr ''2'')) [''API Key'', ''Token'', ''Credit Card Number''])
       = sensitiveInformationDisclosure nested_node (nodeName_of nested_node)"
proof -
  have p: "truthy (read_prop nested_node ''parameters'')" by code_simp
  have v: "string_values (read_prop nested_node ''parameters'')
     = [''my api_key and token'', ''4111 1111 1111 1111'']" by code_simp
  have k1: "matching_kinds ''my api_key and token'' = [''API Key'', ''Token'']" by code_simp
  have k2: "matching_kinds ''4111 1111 1111 1111'' = [''Credit Card Number'']" by code_simp
  have p': "truthy (read_prop repeated_node ''parameters'')" by code_simp
  have v': "string_values (read_prop repeated_node ''parameters'') = [''password password'']"
    by code_simp
  have k': "matching_kinds ''password password'' = [''Password'']" by code_simp
  have na: "\<not> is_annotation nested_node" by code_simp
  have run: "checkNodeSecurity nested_node []
              = Inr (map (sensitiveIssue nested_node (JStr ''2'')) [''API Key'', ''Token'', ''Credit Card Number''])"
    by code_simp
  note main = sensitive_scan_one_issue_per_pattern_per_string
  from main [of nested_node "JStr ''2''"] p v k1 k2
  have 1: "sensitiveInformationDisclosure nested_node (JStr ''2'')
       = map (sensitiveIssue nested_node (JStr ''2'')) [''API Key'', ''Token'', ''Credit Card Number'']"
    by simp
  from main [of repeated_node "JStr ''1''"] p' v' k'
  have 2: "length (sensitiveInformationDisclosure repeated_node (JStr ''1'')) = 1"
    by simp
  from main [of nested_node "JStr ''2''"] run na
  have 3: "filter (\<lambda>f. type f = ''LLM-06: Sensitive Information Disclosure'')
         (map (sensitiveIssue nested_node (JStr ''2'')) [''API Key'', ''Token'', ''Credit Card Number''])
       = filter (\<lambda>f. type f = ''LLM-06: Sensitive Information Disclosure'') []
         @ sensitiveInformationDisclosure nested_node (nodeName_of nested_node)"
    by blast
  from 1 2 3 v k1 k2 show ?thesis by simp
qed

subsection \<open>Code execution risk\<close>

lemma codeExecutionNodes_not_sticky:
  "t \<in> set codeExecutionNodes \<Longrightarrow> \<not> str_includes t ''stickyNote'' \<and> \<not> str_includes t ''agent''"
  by (auto simp: codeExecutionNodes_def)

lemma excessiveAgency_returns:
  assumes "\<not> incl (read_prop node ''type'') ''agent''"
  shows "\<exists>xs. excessiveAgency node nm = Inr xs"
proof (cases "read_prop (read_prop node ''parameters'') ''tools''")
  case (JArr xs)
  with assms show ?thesis
    by (simp add: excessiveAgency_def Let_def or_js_def greater_than_def)
qed (use assms in \<open>simp_all add: excessiveAgency_def Let_def\<close>)

lemma credentialEntries_returns:
  "list_all (\<lambda>(credType, c). \<not> nullish c) es \<Longrightarrow> \<exists>xs. credentialEntries node nm es = Inr xs"
proof (induction es)
  case Nil
  then show ?case by simp
next
  case (Cons e es)
  obtain credType c where e: "e = (credType, c)" by (cases e)
  from Cons e obtain xs where "credentialEntries node nm es = Inr xs" "\<not> nullish c" by auto
  with e show ?case by (simp add: get_def)
qed

lemma credentialReference_returns:
  "credentials_readable node \<Longrightarrow> \<exists>xs. credentialReference node nm = Inr xs"
  using credentialEntries_returns [of "entries (read_prop node ''credentials'')" node nm]
  by (auto simp: credentialReference_def credentials_readable_def)

text \<open>
  The block taken alone pushes its issue, of high severity, exactly when the node's
  type is one of the three listed identifiers; a type that only contains one of them
  is not in the list and yields nothing. A run of \<open>checkNodeSecurity\<close> that returns
  adds that issue and no other of the type in the first case, and none of the type in
  the second. For a listed type the run returns, and with the issue, whenever no
  credential entry of the node is \<^verbatim>\<open>null\<close>.
\<close>

theorem code_execution_exact_type:
  "(read_prop node ''type'' \<in> JStr ` set codeExecutionNodes
       \<longrightarrow> codeExecutionRisk node nm = [codeExecutionIssue node nm])
   \<and> (read_prop node ''type'' \<notin> JStr ` set codeExecutionNodes \<longrightarrow> codeExecutionRisk node nm = [])
   \<and> (\<forall>t. read_prop node ''type'' = JStr t \<and> t \<notin> set codeExecutionNodes
            \<and> (\<exists>listed \<in> set codeExecutionNodes. str_includes t listed)
          \<longrightarrow> codeExecutionRisk node nm = [])
   \<and> severity (codeExecutionIssue node nm) = high
   \<and> type (codeExecutionIssue node nm) = ''Code Execution Risk''
   \<and> (\<forall>issues out. checkNodeSecurity node issues = Inr out \<longrightarrow>
          filter (\<lambda>f. type f = ''Code Execution Risk'') out
            = filter (\<lambda>f. type f = ''Code Execution Risk'') issues
              @ (if read_prop node ''type'' \<in> JStr ` set codeExecutionNodes
                 then [codeExecutionIssue node (nodeName_of node)] else []))
   \<and> (read_prop node ''type'' \<in> JStr ` set codeExecutionNodes \<and> credentials_readable node
       \<longrightarrow> (\<exists>out. checkNodeSecurity node issues = Inr out
                  \<and> codeExecutionIssue node (nodeName_of node) \<in> set out))"
proof -
  have a: "\<And>nm. codeExecutionRisk node nm
             = (if read_prop node ''type'' \<in> JStr ` set codeExecutionNodes
                then [codeExecutionIssue node nm] else [])"
    by (simp add: codeExecutionRisk_def codeExecutionIssue_def)
  have b: "\<And>nm. severity (codeExecutionIssue node nm) = high"
    "\<And>nm. type (codeExecutionIssue node nm) = ''Code Execution Risk''"
    by (simp_all add: codeExecutionIssue_def issue_def)
  have listed: "read_prop node ''type'' \<in> JStr ` set codeExecutionNodes \<Longrightarrow>
                  \<not> is_annotation node \<and> \<not> incl (read_prop node ''type'') ''agent'' \<and> \<not> nullish node"
  proof -
    assume "read_prop node ''type'' \<in> JStr ` set codeExecutionNodes"
    then obtain t where t: "read_prop node ''type'' = JStr t" "t \<in> set codeExecutionNodes" by auto
    from t(1) have "\<not> nullish node" by (cases node) simp_all
    with t codeExecutionNodes_not_sticky [OF t(2)] show ?thesis
      by (simp add: is_annotation_def)
  qed
  have c: "\<And>issues out. checkNodeSecurity node issues = Inr out \<Longrightarrow>
          filter (\<lambda>f. type f = ''Code Execution Risk'') out
            = filter (\<lambda>f. type f = ''Code Execution Risk'') issues
              @ (if read_prop node ''type'' \<in> JStr ` set codeExecutionNodes
                 then [codeExecutionIssue node (nodeName_of node)] else [])"
  proof -
    fix issues out
    assume run: "checkNodeSecurity node issues = Inr out"
    show "filter (\<lambda>f. type f = ''Code Execution Risk'') out
            = filter (\<lambda>f. type f = ''Code Execution Risk'') issues
              @ (if read_prop node ''type'' \<in> JStr ` set codeExecutionNodes
                 then [codeExecutionIssue node (nodeName_of node)] else [])"
    proof (cases "is_annotation node")
      case True
      with listed have "read_prop node ''type'' \<notin> JStr ` set codeExecutionNodes" by blast
      with checkNodeSecurity_annotation [OF run True] show ?thesis by simp
    next
      case False
      from checkNodeSecurity_blocks [OF run False] obtain agency creds where
        ag: "excessiveAgency node (nodeName_of node) = Inr agency" and
        cr: "credentialReference node (nodeName_of node) = Inr creds" and
        out: "out = issues
                  @ promptInjection node (nodeName_of node)
                  @ insecureOutputHandling node (nodeName_of node)
                  @ trainingDataPoisoning node (nodeName_of node)
                  @ modelDenialOfService node (nodeName_of node)
                  @ sensitiveInformationDisclosure node (nodeName_of node)
                  @ insecurePluginDesign node (nodeName_of node)
                  @ agency
                  @ overreliance node (nodeName_of node)
                  @ modelTheft node (nodeName_of node)
                  @ insecurePlanning node (nodeName_of node)
                  @ memoryPoisoning node (nodeName_of node)
                  @ creds
                  @ codeExecutionRisk node (nodeName_of node)
                  @ externalHttpRequest node (nodeName_of node)
                  @ webhookExposure node (nodeName_of node)
                  @ socialMediaIntegrationRisk node (nodeName_of node)
                  @ databaseSecurityRisk node (nodeName_of node)
                  @ fileSystemAccessRisk node (nodeName_of node)"
        by blast
      show ?thesis
        unfolding out
        by (simp add: filter_type_blocks filter_type_excessiveAgency [OF ag]
              filter_type_credentialReference [OF cr] a b)
    qed
  qed
  have d: "read_prop node ''type'' \<in> JStr ` set codeExecutionNodes \<and> credentials_readable node
       \<longrightarrow> (\<exists>out. checkNodeSecurity node issues = Inr out
                  \<and> codeExecutionIssue node (nodeName_of node) \<in> set out)"
  proof
    assume h: "read_prop node ''type'' \<in> JStr ` set codeExecutionNodes \<and> credentials_readable node"
    with listed have na: "\<not> is_annotation node" and nag: "\<not> incl (read_prop node ''type'') ''agent''"
      and nn: "\<not> nullish node" by blast+
    from h obtain t where t: "read_prop node ''type'' = JStr t" by auto
    from excessiveAgency_returns [OF nag] obtain agency where
      ag: "excessiveAgency node (nodeName_of node) = Inr agency" by blast
    from credentialReference_returns h obtain creds where
      cr: "credentialReference node (nodeName_of node) = Inr creds" by blast
    from na t have ns: "\<not> str_includes t ''stickyNote''" by (simp add: is_annotation_def)
    from nn t ns ag cr obtain out where run: "checkNodeSecurity node issues = Inr out"
      by (simp add: checkNodeSecurity_def get_def Let_def nodeName_of_def)
    from c [OF run] h
    have "codeExecutionIssue node (nodeName_of node)
            \<in> set (filter (\<lambda>f. type f = ''Code Execution Risk'') out)"
      by simp
    with run show "\<exists>out. checkNodeSecurity node issues = Inr out
                  \<and> codeExecutionIssue node (nodeName_of node) \<in> set out"
      by auto
  qed
  have e: "\<And>t. read_prop node ''type'' = JStr t \<Longrightarrow> t \<notin> set codeExecutionNodes
            \<Longrightarrow> codeExecutionRisk node nm = []"
    using a by auto
  from a b c d e show ?thesis by simp
qed

theorem code_execution_exact_type_witness:
  "codeExecutionRisk code_node (JStr ''Run'') = [codeExecutionIssue code_node (JStr ''Run'')]
   \<and> codeExecutionIssue code_node (JStr ''Run'') \<in> set (findings_of code_node)
   \<and> filter (\<lambda>f. type f = ''Code Execution Risk'') (findings_of code_node)
       = [codeExecutionIssue code_node (JStr ''Run'')]
   \<and> length (findings_of code_node) = 2
   \<and> str_includes ''custom.n8n-nodes-base.code.v2'' ''n8n-nodes-base.code''
   \<and> codeExecutionRisk lookalike_node (JStr ''4'') = []
   \<and> codeExecutionRisk database_code_node (JStr ''5'') = []
   \<and> filter (\<lambda>f. type f = ''Code Execution Risk'') (findings_of lookalike_node) = []
   \<and> filter (\<lambda>f. type f = ''Code Execution Risk'') (findings_of database_code_node) = []
   \<and> length (findings_of database_code_node) = 1"
proof -
  have ty: "read_prop code_node ''type'' \<in> JStr ` set codeExecutionNodes" by code_simp
  have cr: "credentials_readable code_node" by code_simp
  have nm: "nodeName_of code_node = JStr ''Run''" by code_simp
  have l: "length (findings_of code_node) = 2" by code_simp
  have ty2: "read_prop lookalike_node ''type'' \<notin> JStr ` set codeExecutionNodes" by code_simp
  have lt: "read_prop lookalike_node ''type'' = JStr ''custom.n8n-nodes-base.code.v2''" by code_simp
  have ln: "''custom.n8n-nodes-base.code.v2'' \<notin> set codeExecutionNodes" by code_simp
  have li: "str_includes ''custom.n8n-nodes-base.code.v2'' ''n8n-nodes-base.code''" by code_simp
  have lm: "''n8n-nodes-base.code'' \<in> set codeExecutionNodes" by code_simp
  have ty3: "read_prop database_code_node ''type'' \<notin> JStr ` set codeExecutionNodes" by code_simp
  have l3: "length (findings_of database_code_node) = 1" by code_simp
  have r2: "checkNodeSecurity lookalike_node [] = Inr (findings_of lookalike_node)" by code_simp
  have r3: "checkNodeSecurity database_code_node [] = Inr (findings_of database_code_node)" by code_simp
  note main = code_execution_exact_type
  from main [of code_node "JStr ''Run''" "[]"] ty
  have 1: "codeExecutionRisk code_node (JStr ''Run'') = [codeExecutionIssue code_node (JStr ''Run'')]"
    by blast
  from main [of code_node "JStr ''Run''" "[]"] ty cr obtain out where
    out: "checkNodeSecurity code_node [] = Inr out" "codeExecutionIssue code_node (nodeName_of code_node) \<in> set out"
    by blast
  then have 2: "codeExecutionIssue code_node (JStr ''Run'') \<in> set (findings_of code_node)"
    by (simp add: findings_of_def nm)
  from main [of code_node "JStr ''Run''" "[]"] out(1) ty
  have "filter (\<lambda>f. type f = ''Code Execution Risk'') out
          = filter (\<lambda>f. type f = ''Code Execution Risk'') [] @ [codeExecutionIssue code_node (nodeName_of code_node)]"
    by simp
  with out(1) have 3: "filter (\<lambda>f. type f = ''Code Execution Risk'') (findings_of code_node)
       = [codeExecutionIssue code_node (JStr ''Run'')]"
    by (simp add: findings_of_def nm)
  from main [of lookalike_node "JStr ''4''" "[]"] lt ln li lm
  have 4: "codeExecutionRisk lookalike_node (JStr ''4'') = []" by blast
  from main [of database_code_node "JStr ''5''" "[]"] ty3
  have 5: "codeExecutionRisk database_code_node (JStr ''5'') = []" by blast
  from main [of lookalike_node "JStr ''4''" "[]"] r2 ty2
  have 6: "filter (\<lambda>f. type f = ''Code Execution Risk'') (findings_of lookalike_node) = []"
    by simp
  from main [of database_code_node "JStr ''5''" "[]"] r3 ty3
  have 7: "filter (\<lambda>f. type f = ''Code Execution Risk'') (findings_of database_code_node) = []"
    by simp
  from 1 2 3 4 5 6 7 l l3 li show ?thesis by simp
qed

subsection \<open>A null credential entry\<close>

lemma credentialEntries_throws:
  "(credType, c) \<in> set es \<Longrightarrow> nullish c \<Longrightarrow> \<exists>e. credentialEntries node nm es = Inl e"
proof (induction es)
  case Nil
  then show ?case by simp
next
  case (Cons x es)
  obtain k v where x: "x = (k, v)" by (cases x)
  show ?case
  proof (cases "nullish v")
    case True
    with x show ?thesis by (simp add: get_def)
  next
    case False
    with Cons x have "(credType, c) \<in> set es" by auto
    from Cons.IH [OF this Cons.prems(2)] obtain e where "credentialEntries node nm es = Inl e"
      by blast
    with x False show ?thesis by (simp add: get_def)
  qed
qed

lemma checkNodeSecurity_throws_on_null_credential:
  assumes "\<not> is_annotation node" "truthy (read_prop node ''credentials'')"
    "(credType, c) \<in> set (entries (read_prop node ''credentials''))" "nullish c"
  shows "\<exists>e. checkNodeSecurity node issues = Inl e"
proof (cases "checkNodeSecurity node issues")
  case (Inl e)
  then show ?thesis by blast
next
  case (Inr out)
  from checkNodeSecurity_blocks [OF Inr assms(1)] obtain creds where
    "credentialReference node (nodeName_of node) = Inr creds" by blast
  moreover from credentialEntries_throws [OF assms(3,4)] assms(2)
  have "\<exists>e. credentialReference node (nodeName_of node) = Inl e"
    by (simp add: credentialReference_def)
  ultimately show ?thesis by auto
qed

lemma nodeCallback_throws_with_checkNodeSecurity:
  assumes "\<And>issues. \<exists>e. checkNodeSecurity node issues = Inl e"
  shows "\<exists>e. nodeCallback node index st = Inl e"
proof (cases "nodeCallback node index st")
  case (Inl e)
  then show ?thesis by blast
next
  case (Inr st')
  obtain errs warns issues where st: "st = (errs, warns, issues)" by (cases st)
  obtain errs' warns' issues' where st': "st' = (errs', warns', issues')" by (cases st')
  from Inr st st' have "\<exists>out. checkNodeSecurity node issues = Inr out"
    unfolding nodeCallback_def Let_def by (auto simp: bindE_Inr_iff)
  with assms [of issues] show ?thesis by auto
qed

text \<open>
  C7. The membership test of the block is exact, as shown above, but the block is not
  always reached: the credential loop runs before it and reads
  \<^verbatim>\<open>node.credentials[credType].id\<close> without a guard. For a node of a listed type with a
  credential entry that is \<^verbatim>\<open>null\<close>, \<open>checkNodeSecurity\<close> throws, the validator
  does not return, and the report \<open>analyzeJson\<close> stores holds the exception's message
  and no security issue: the node yields no Code Execution Risk finding.
\<close>

theorem null_credential_entry_aborts:
  assumes "trim jsonInput \<noteq> []" "JSON_parse jsonInput = Inr d"
    "read_prop d ''nodes'' = JArr ns" "j < length ns"
    "read_prop (ns ! j) ''type'' \<in> JStr ` set codeExecutionNodes"
    "truthy (read_prop (ns ! j) ''credentials'')"
    "(credType, c) \<in> set (entries (read_prop (ns ! j) ''credentials''))" "nullish c"
  shows "(\<exists>e. checkNodeSecurity (ns ! j) issues = Inl e)
         \<and> (\<exists>e. validateN8nWorkflow d = Inl e
                \<and> result (analyzeJson JSON_parse jsonInput st)
                    = Some (failure (''Invalid JSON format: '' @ error_message e))
                \<and> securityIssues (failure (''Invalid JSON format: '' @ error_message e)) = [])"
proof -
  from assms(5) obtain t where t: "read_prop (ns ! j) ''type'' = JStr t" "t \<in> set codeExecutionNodes"
    by auto
  with codeExecutionNodes_not_sticky [OF t(2)] have na: "\<not> is_annotation (ns ! j)"
    by (simp add: is_annotation_def)
  have cs: "\<And>issues. \<exists>e. checkNodeSecurity (ns ! j) issues = Inl e"
    using checkNodeSecurity_throws_on_null_credential [OF na assms(6,7,8)] .
  have cb: "\<And>index st. \<exists>e. nodeCallback (ns ! j) index st = Inl e"
    using nodeCallback_throws_with_checkNodeSecurity [OF cs] .
  have "\<exists>e. validateN8nWorkflow d = Inl e"
  proof (cases "validateN8nWorkflow d")
    case (Inl e)
    then show ?thesis by blast
  next
    case (Inr r)
    have wf: "truthy (isN8nWorkflow_value d)"
      using assms(3) by (cases d) (simp_all add: isN8nWorkflow_value_def and_js_def or_js_def)
    from validate_Inr_workflow [OF Inr wf] assms(3) obtain errs0 where
      "nodes_forEach ns 0 (errs0, [], []) = Inr (errors r, warnings r, securityIssues r)" by auto
    from nodes_forEach_step [OF this assms(4)] obtain st0 st1 where
      "nodeCallback (ns ! j) j st0 = Inr st1" by auto
    with cb [of j st0] show ?thesis by auto
  qed
  then obtain e where e: "validateN8nWorkflow d = Inl e" by blast
  from analyzeJson_validate_error [of jsonInput JSON_parse d e st, OF assms(1,2) e]
  have "result (analyzeJson JSON_parse jsonInput st)
          = Some (failure (''Invalid JSON format: '' @ error_message e))" .
  with e cs [of issues] show ?thesis by (simp add: failure_fields)
qed

lemma null_credential_input_not_blank: "trim null_credential_input \<noteq> []"
  by code_simp

lemma null_credential_validate:
  "validateN8nWorkflow null_credential_doc = Inl (cannot_read JNull ''id'')"
  by code_simp

theorem null_credential_entry_aborts_witness:
  "read_prop null_credential_node ''type'' = JStr ''n8n-nodes-base.code''
   \<and> checkNodeSecurity null_credential_node [] = Inl (cannot_read JNull ''id'')
   \<and> validateN8nWorkflow null_credential_doc = Inl (cannot_read JNull ''id'')
   \<and> result (analyzeJson (\<lambda>s. Inr null_credential_doc) null_credential_input initial_state)
       = Some (failure (''Invalid JSON format: '' @ error_message (cannot_read JNull ''id'')))
   \<and> securityIssues (failure (''Invalid JSON format: '' @ error_message (cannot_read JNull ''id''))) = []"
proof -
  have ns: "read_prop null_credential_doc ''nodes'' = JArr [null_credential_node]" by code_simp
  have ty: "read_prop ([null_credential_node] ! 0) ''type'' \<in> JStr ` set codeExecutionNodes"
    by code_simp
  have ty': "read_prop null_credential_node ''type'' = JStr ''n8n-nodes-base.code''" by code_simp
  have cr: "truthy (read_prop ([null_credential_node] ! 0) ''credentials'')" by code_simp
  have en: "(''a'', JNull) \<in> set (entries (read_prop ([null_credential_node] ! 0) ''credentials''))"
    by code_simp
  have run: "checkNodeSecurity null_credential_node [] = Inl (cannot_read JNull ''id'')"
    by code_simp
  from null_credential_entry_aborts [of null_credential_input "\<lambda>s. Inr null_credential_doc"
      null_credential_doc "[null_credential_node]" 0 "''a''" JNull "[]" initial_state,
      OF null_credential_input_not_blank refl ns _ ty cr en]
  have "\<exists>e. validateN8nWorkflow null_credential_doc = Inl e
                \<and> result (analyzeJson (\<lambda>s. Inr null_credential_doc) null_credential_input initial_state)
                    = Some (failure (''Invalid JSON format: '' @ error_message e))
                \<and> securityIssues (failure (''Invalid JSON format: '' @ error_message e)) = []"
    by simp
  with null_credential_validate ty' run show ?thesis by auto
qed

end
